theory Spec2Isabelle
  imports Complex_Main "HOL-Library.Word"
begin

unbundle bit_operations_syntax

section \<open>Boxed expressions\<close>

text \<open>
  The engine's expression nodes. A numeric literal carries a kernel value: a machine
  number, an arbitrary-precision decimal, a rational pair or a complex number. A
  JavaScript number is \<open>number\<close>: its finite values are idealised as rationals, and
  the two infinities and not-a-number are values of their own.
\<close>

datatype number = Finite rat | Infinity | MinusInfinity | NotANumber

datatype numeric =
    Machine number
  | Decimal number
  | Rational int int
  | Complex number number

text \<open>
  \<open>BoxedFunction\<close> has a head that is a string or a boxed expression, and its operands.
  \<open>BoxedTensor\<close> has the four private fields of the class: \<open>_head\<close>, \<open>_ops\<close>,
  \<open>_tensor\<close> and \<open>_expression\<close>, each possibly undefined. An
  \<open>AbstractTensor\<close> has a shape and its data; its \<open>expression\<close> getter (the
  function-application view of the tensor, computed by the tensor module) is kept as a
  third component.
\<close>

datatype expr =
    BoxedNumber numeric
  | BoxedSymbol string
  | BoxedString string
  | BoxedFunction head "expr list"
  | BoxedTensor "string option" "expr list option" "tensor option" "expr option"
and head =
    Name string
  | Compound expr
and tensor =
    AbstractTensor "nat list" "expr list" expr

abbreviation Fn :: "string \<Rightarrow> expr list \<Rightarrow> expr" where
  "Fn h xs \<equiv> BoxedFunction (Name h) xs"

text \<open>Shared constants of the engine (set in the constructor of \<open>ComputeEngine\<close>).\<close>

definition Zero :: expr where "Zero = BoxedNumber (Machine (Finite 0))"
definition One :: expr where "One = BoxedNumber (Machine (Finite 1))"
definition NegativeOne :: expr where "NegativeOne = BoxedNumber (Machine (Finite (- 1)))"
definition Half :: expr where "Half = BoxedNumber (Rational 1 2)"
definition NaN :: expr where "NaN = BoxedNumber (Machine NotANumber)"
definition PositiveInfinity :: expr where "PositiveInfinity = BoxedNumber (Machine Infinity)"
definition ComplexInfinity :: expr where "ComplexInfinity = BoxedNumber (Complex Infinity Infinity)"
definition Nothing :: expr where "Nothing = BoxedSymbol ''Nothing''"

text \<open>
  The getters \<open>head\<close>, \<open>ops\<close>, \<open>op1\<close>, \<open>op2\<close>, \<open>symbol\<close> and \<open>numericValue\<close>.
  For a function they are the ones of \<open>BoxedFunction\<close>; for a tensor the ones of
  \<open>BoxedTensor\<close>, which answer from the tensor when it is there and from the
  expression otherwise.

  Modelled from the spec: the getters of the literal classes (numbers, symbols and
  strings), whose classes are not among the sources. A literal has a synthesised head
  name and no operands; \<open>op1\<close> and \<open>op2\<close> of a node without that operand are the symbol
  \<open>Nothing\<close>; \<open>numericValue\<close> is the kernel number of a numeric leaf and absent
  elsewhere; \<open>symbol\<close> is the name of a symbol and absent elsewhere.
\<close>

fun expression :: "expr \<Rightarrow> expr" where
  "expression (BoxedTensor h os t (Some e)) = e"
| "expression (BoxedTensor h os (Some (AbstractTensor shape data e)) None) = e"
| "expression x = x"

fun head_of :: "expr \<Rightarrow> head" where
  "head_of (BoxedNumber n) = Name ''Number''"
| "head_of (BoxedSymbol s) = Name ''Symbol''"
| "head_of (BoxedString s) = Name ''String''"
| "head_of (BoxedFunction h xs) = h"
| "head_of (BoxedTensor h os t e) =
     (case t of Some _ \<Rightarrow> Name ''List''
      | None \<Rightarrow> (case h of Some n \<Rightarrow> Name n | None \<Rightarrow> Name ''List''))"

definition head_is :: "expr \<Rightarrow> string \<Rightarrow> bool" where
  "head_is x h = (head_of x = Name h)"

fun ops :: "expr \<Rightarrow> expr list option" where
  "ops (BoxedFunction h xs) = Some xs"
| "ops (BoxedTensor h os t (Some e)) = ops e"
| "ops (BoxedTensor h os (Some (AbstractTensor shape data e)) None) = ops e"
| "ops x = None"

fun op1 :: "expr \<Rightarrow> expr" where
  "op1 (BoxedFunction h xs) = (case xs of [] \<Rightarrow> Nothing | x # _ \<Rightarrow> x)"
| "op1 (BoxedTensor h os (Some (AbstractTensor shape data e)) e') =
     (case data of [] \<Rightarrow> Nothing | x # _ \<Rightarrow> x)"
| "op1 (BoxedTensor h os None (Some e)) = op1 e"
| "op1 x = Nothing"

fun op2 :: "expr \<Rightarrow> expr" where
  "op2 (BoxedFunction h xs) = (case xs of x # y # _ \<Rightarrow> y | _ \<Rightarrow> Nothing)"
| "op2 (BoxedTensor h os (Some (AbstractTensor shape data e)) e') =
     (case data of x # y # _ \<Rightarrow> y | _ \<Rightarrow> Nothing)"
| "op2 (BoxedTensor h os None (Some e)) = op2 e"
| "op2 x = Nothing"

fun symbol :: "expr \<Rightarrow> string option" where
  "symbol (BoxedSymbol s) = Some s"
| "symbol x = None"

fun numericValue :: "expr \<Rightarrow> numeric option" where
  "numericValue (BoxedNumber n) = Some n"
| "numericValue x = None"

section \<open>Hold policies\<close>

text \<open>
  The six values of a definition's \<open>hold\<close>, and \<open>shouldHold(skip, count, index)\<close>.
  \<open>count\<close> is the number of operands less one, a JavaScript number that is \<open>-1\<close> for
  no operand, so both numbers are integers here.
\<close>

datatype Hold = all_hold | none_hold | first_hold | rest_hold | last_hold | most_hold

fun shouldHold :: "Hold \<Rightarrow> int \<Rightarrow> int \<Rightarrow> bool" where
  "shouldHold all_hold count index = True"
| "shouldHold none_hold count index = False"
| "shouldHold first_hold count index = (index = 0)"
| "shouldHold rest_hold count index = (index \<noteq> 0)"
| "shouldHold last_hold count index = (index = count)"
| "shouldHold most_hold count index = (index \<noteq> count)"

text \<open>
  Modelled from the spec: \<open>flattenOps\<close> of the flatten module, which is not among the
  sources: \<open>f(a, f(b, c), d) -> f(a, b, c, d)\<close>, the operands of a child with the
  given head are spliced in, at any depth. The functions below take \<open>flattenOps\<close> as a
  parameter; this one stands for it on concrete inputs.
\<close>

fun flattenOps :: "expr list \<Rightarrow> string \<Rightarrow> expr list" where
  "flattenOps [] h = []"
| "flattenOps (BoxedFunction (Name n) ys # xs) h =
     (if n = h then flattenOps ys h @ flattenOps xs h
      else BoxedFunction (Name n) ys # flattenOps xs h)"
| "flattenOps (x # xs) h = x # flattenOps xs h"

text \<open>
  \<open>holdMap(xs, skip, associativeHead, f)\<close>. \<open>f\<close> returns an expression or \<open>null\<close>.
  \<open>flattenOps\<close> is the parameter \<open>flatten\<close>. The branch for
  \<open>none\<close> is the \<open>for ... of\<close> loop, the last branch the indexed loop.
\<close>

fun holdMap_none :: "(expr \<Rightarrow> expr option) \<Rightarrow> expr list \<Rightarrow> expr list" where
  "holdMap_none f [] = []"
| "holdMap_none f (x # xs) =
     (if head_is x ''Hold'' then x # holdMap_none f xs
      else (let op = (if head_is x ''ReleaseHold'' then op1 x else x) in
            case f op of
              None \<Rightarrow> holdMap_none f xs
            | Some y \<Rightarrow> y # holdMap_none f xs))"

fun holdMap_loop ::
  "Hold \<Rightarrow> (expr \<Rightarrow> expr option) \<Rightarrow> int \<Rightarrow> int \<Rightarrow> expr list \<Rightarrow> expr list" where
  "holdMap_loop skip f count i [] = []"
| "holdMap_loop skip f count i (x # xs) =
     (if head_is x ''Hold'' then x # holdMap_loop skip f count (i + 1) xs
      else if head_is x ''ReleaseHold'' then
        (case f (op1 x) of
           None \<Rightarrow> holdMap_loop skip f count (i + 1) xs
         | Some r \<Rightarrow> r # holdMap_loop skip f count (i + 1) xs)
      else if \<not> shouldHold skip count i then
        (case f x of
           None \<Rightarrow> holdMap_loop skip f count (i + 1) xs
         | Some r \<Rightarrow> r # holdMap_loop skip f count (i + 1) xs)
      else x # holdMap_loop skip f count (i + 1) xs)"

definition holdMap ::
  "(expr list \<Rightarrow> string \<Rightarrow> expr list) \<Rightarrow> expr list \<Rightarrow> Hold \<Rightarrow> string \<Rightarrow>
   (expr \<Rightarrow> expr option) \<Rightarrow> expr list" where
  "holdMap flatten xs skip associativeHead f =
     (if xs = [] then []
      else (let xs' = flatten xs associativeHead in
            if skip = all_hold then xs'
            else if skip = none_hold then flatten (holdMap_none f xs') associativeHead
            else flatten
                   (holdMap_loop skip f (int (length xs') - 1) 0 xs') associativeHead))"

text \<open>
  The operand loop of \<open>makeCanonicalFunction\<close>, reached when the head has a definition
  and is none of the numeric short paths. \<open>box canonical x\<close> is \<open>ce.box(x, {canonical})\<close>
  and \<open>canonical\<close> the getter of that name; both are parameters.
\<close>

fun makeCanonicalFunction_xs ::
  "(bool \<Rightarrow> expr \<Rightarrow> expr) \<Rightarrow> (expr \<Rightarrow> expr) \<Rightarrow> Hold \<Rightarrow> int \<Rightarrow> int \<Rightarrow> expr list \<Rightarrow>
   expr list" where
  "makeCanonicalFunction_xs box canonical hold count i [] = []"
| "makeCanonicalFunction_xs box canonical hold count i (x # xs) =
     (if \<not> shouldHold hold count i then box True x
      else (let y = box False x in
            if head_is y ''ReleaseHold'' then canonical (op1 y) else y))
     # makeCanonicalFunction_xs box canonical hold count (i + 1) xs"

text \<open>
  The hold table in the words of the specification: the positions of an operand list
  of length \<open>n\<close> that a policy keeps from processing.
\<close>

fun held :: "Hold \<Rightarrow> nat \<Rightarrow> nat \<Rightarrow> bool" where
  "held all_hold n i = True"
| "held none_hold n i = False"
| "held first_hold n i = (i = 0)"
| "held rest_hold n i = (1 \<le> i \<and> i + 1 \<le> n)"
| "held last_hold n i = (i + 1 = n)"
| "held most_hold n i = (i + 2 \<le> n)"

text \<open>
  What the specification says of one operand at position \<open>i\<close> of \<open>n\<close> in the
  evaluation passes: a \<open>Hold\<close> is kept, a \<open>ReleaseHold\<close> is processed without its
  wrapper whatever the policy, any other operand is processed when its position is not
  held. An operand for which \<open>f\<close> answers \<open>null\<close> is dropped.
\<close>

definition spec_hold_cell ::
  "Hold \<Rightarrow> (expr \<Rightarrow> expr option) \<Rightarrow> nat \<Rightarrow> nat \<times> expr \<Rightarrow> expr list" where
  "spec_hold_cell p f n ix =
     (case ix of (i, x) \<Rightarrow>
        if head_is x ''Hold'' then [x]
        else if head_is x ''ReleaseHold'' then (case f (op1 x) of None \<Rightarrow> [] | Some r \<Rightarrow> [r])
        else if held p n i then [x]
        else (case f x of None \<Rightarrow> [] | Some r \<Rightarrow> [r]))"

definition spec_holdMap :: "Hold \<Rightarrow> (expr \<Rightarrow> expr option) \<Rightarrow> expr list \<Rightarrow> expr list" where
  "spec_holdMap p f xs = concat (map (spec_hold_cell p f (length xs)) (enumerate 0 xs))"

definition spec_holdMap_flat ::
  "(expr list \<Rightarrow> string \<Rightarrow> expr list) \<Rightarrow> expr list \<Rightarrow> Hold \<Rightarrow> string \<Rightarrow>
   (expr \<Rightarrow> expr option) \<Rightarrow> expr list" where
  "spec_holdMap_flat fl xs p h f = fl (spec_holdMap p f (fl xs h)) h"

text \<open>
  One operand in canonicalisation, as \<open>makeCanonicalFunction\<close> treats it: an operand at a
  position that is not held is boxed in canonical form; at a held position a
  \<open>ReleaseHold\<close> is replaced by the canonical form of its operand and anything else is
  boxed as it is.
\<close>

definition canonical_cell ::
  "(bool \<Rightarrow> expr \<Rightarrow> expr) \<Rightarrow> (expr \<Rightarrow> expr) \<Rightarrow> Hold \<Rightarrow> nat \<Rightarrow> nat \<times> expr \<Rightarrow> expr" where
  "canonical_cell box canonical p n ix =
     (case ix of (i, x) \<Rightarrow>
        if \<not> held p n i then box True x
        else if head_is (box False x) ''ReleaseHold'' then canonical (op1 (box False x))
        else box False x)"

section \<open>Cost-biased choice between two forms\<close>

text \<open>
  \<open>cheapest(oldExpr, newExpr)\<close> of boxed-function.ts. The candidate is \<open>null\<close>,
  \<open>undefined\<close> (both \<open>None\<close>) or an expression. The engine's cost function is a
  parameter; its JavaScript numbers are read as exact rationals, so \<open>1.2\<close> is
  \<open>6/5\<close>. The test \<open>oldExpr === newExpr\<close> compares references: two references to one
  object are equal values, and for two distinct objects of equal value either answer of
  the function is that same value. \<open>ce.box\<close> returns a boxed expression as it is.
\<close>

definition cheapest :: "(expr \<Rightarrow> rat) \<Rightarrow> expr \<Rightarrow> expr option \<Rightarrow> expr" where
  "cheapest costFunction oldExpr newExpr =
     (case newExpr of
        None \<Rightarrow> oldExpr
      | Some n \<Rightarrow>
          if oldExpr = n then oldExpr
          else if costFunction n \<le> (6 / 5) * costFunction oldExpr then n
          else oldExpr)"

text \<open>
  One turn of the rule loop of \<open>BoxedFunction.simplify\<close> (step 6): \<open>expr.replace(rules)\<close>
  is the parameter \<open>replaceRules\<close>; the result is the new value of \<open>expr\<close> and of \<open>done\<close>.
\<close>

definition rule_loop_body ::
  "(expr \<Rightarrow> rat) \<Rightarrow> (expr \<Rightarrow> expr option) \<Rightarrow> expr \<Rightarrow> expr \<times> bool" where
  "rule_loop_body costFunction replaceRules e =
     (case replaceRules e of
        None \<Rightarrow> (e, True)
      | Some newExpr \<Rightarrow>
          (let e' = cheapest costFunction e (Some newExpr) in (e', e' = newExpr)))"

text \<open>
  The \<open>do ... while (!done && iterationCount < iterationLimit)\<close> loop: the body runs
  once before the test.
\<close>

function rule_loop ::
  "(expr \<Rightarrow> rat) \<Rightarrow> (expr \<Rightarrow> expr option) \<Rightarrow> nat \<Rightarrow> expr \<Rightarrow> nat \<Rightarrow> expr" where
  "rule_loop costFunction replaceRules iterationLimit e iterationCount =
     (case rule_loop_body costFunction replaceRules e of
        (e', done) \<Rightarrow>
          if \<not> done \<and> iterationCount + 1 < iterationLimit
          then rule_loop costFunction replaceRules iterationLimit e' (iterationCount + 1)
          else e')"
  by pat_completeness auto
termination
  by (relation "measure (\<lambda>(c, r, l, e, n). l - n)") auto

section \<open>Evaluation of a function expression\<close>

text \<open>
  A function definition as \<open>evaluate\<close> reads it: its flags, its hold policy and the two
  handlers of its signature (absent, or a function of the evaluated operands that
  answers an expression or nothing).
\<close>

record function_definition =
  name :: string
  threadable :: bool
  hold :: Hold
  associative :: bool
  inert :: bool
  sig_N :: "(expr list \<Rightarrow> expr option) option"
  sig_evaluate :: "(expr list \<Rightarrow> expr option) option"

text \<open>
  What \<open>evaluate\<close> uses of the engine and of other modules, as parameters: the
  collection utilities \<open>isFiniteIndexableCollection\<close> and \<open>at\<close> (here \<open>at_index\<close>), the size handler of an
  operand's definition (\<open>x.functionDefinition?.size?.(x)\<close>, absent or a length), the
  methods \<open>evaluate\<close>, \<open>canonical\<close>, \<open>isCanonical\<close> and \<open>isValid\<close> of other expressions,
  \<open>apply\<close>, \<open>ce.fn\<close>, \<open>ce.box\<close>, \<open>flattenOps\<close>, and the two numeric-mode tests.
\<close>

record evaluate_env =
  isFiniteIndexableCollection :: "expr \<Rightarrow> bool"
  size_handler :: "expr \<Rightarrow> nat option"
  at_index :: "expr \<Rightarrow> nat \<Rightarrow> expr option"
  evaluate_of :: "expr \<Rightarrow> expr"
  canonical_of :: "expr \<Rightarrow> expr"
  isCanonical_of :: "expr \<Rightarrow> bool"
  isValid_of :: "expr \<Rightarrow> bool"
  apply_fn :: "expr \<Rightarrow> expr list \<Rightarrow> expr"
  ce_fn :: "head \<Rightarrow> expr list \<Rightarrow> expr"
  ce_box :: "expr \<Rightarrow> expr"
  flatten_ops :: "expr list \<Rightarrow> string \<Rightarrow> expr list"
  complexAllowed :: bool
  bignumPreferred :: bool

text \<open>
  The receiver of \<open>evaluate\<close>: head, operands, the flags \<open>isValid\<close> and \<open>isCanonical\<close>
  and the definition bound to the head.
\<close>

record boxed_function =
  fn_head :: head
  fn_ops :: "expr list"
  fn_isValid :: bool
  fn_isCanonical :: bool
  functionDefinition :: "function_definition option"

definition this_expr :: "boxed_function \<Rightarrow> expr" where
  "this_expr this = BoxedFunction (fn_head this) (fn_ops this)"

text \<open>
  Step 2 of \<open>evaluate\<close>, threading. The length is \<open>Math.max\<close> of the sizes of all
  operands, an operand without a size handler counting 0; sizes are lengths, so the
  maximum starts from 0. The loop runs \<open>i\<close> from 0 to \<open>length - 1\<close>.
\<close>

definition thread_length :: "evaluate_env \<Rightarrow> expr list \<Rightarrow> nat" where
  "thread_length E xs =
     foldr max (map (\<lambda>x. case size_handler E x of None \<Rightarrow> 0 | Some n \<Rightarrow> n) xs) 0"

definition thread_args :: "evaluate_env \<Rightarrow> expr list \<Rightarrow> nat \<Rightarrow> nat \<Rightarrow> expr list" where
  "thread_args E xs len i =
     map (\<lambda>x. if isFiniteIndexableCollection E x
               then (case at_index E x ((i mod len) + 1) of None \<Rightarrow> Nothing | Some y \<Rightarrow> y)
               else x) xs"

definition thread :: "evaluate_env \<Rightarrow> head \<Rightarrow> expr list \<Rightarrow> expr" where
  "thread E h xs =
     (let len = thread_length E xs;
          results = map (\<lambda>i. evaluate_of E (BoxedFunction h (thread_args E xs len i))) [0..<len]
      in if length results = 0 then ce_box E (Fn ''Sequence'' [])
         else if length results = 1 then results ! 0
         else Fn ''List'' results)"

text \<open>
  The last steps on the result of a handler: a complex value where complex numbers are
  not allowed becomes \<open>NaN\<close>, a decimal where decimals are not preferred becomes a
  machine number.
\<close>

definition numeric_postfilter :: "evaluate_env \<Rightarrow> expr \<Rightarrow> expr" where
  "numeric_postfilter E result =
     (case numericValue result of
        None \<Rightarrow> result
      | Some num \<Rightarrow>
          (case num of
             Complex re im \<Rightarrow> if \<not> complexAllowed E then NaN else result
           | Decimal d \<Rightarrow> if \<not> bignumPreferred E then BoxedNumber (Machine d) else result
           | _ \<Rightarrow> result))"

text \<open>
  Step 6, the call of the \<open>N\<close> or \<open>evaluate\<close> handler, without the scope (the scope is
  in the next section).
\<close>

definition call_handlers ::
  "function_definition \<Rightarrow> bool \<Rightarrow> expr list \<Rightarrow> expr option" where
  "call_handlers d numericMode tail =
     (let result = (if numericMode then (case sig_N d of None \<Rightarrow> None | Some n \<Rightarrow> n tail)
                    else None)
      in case result of
           Some r \<Rightarrow> Some r
         | None \<Rightarrow> (case sig_evaluate d of None \<Rightarrow> None | Some ev \<Rightarrow> ev tail))"

text \<open>
  \<open>BoxedFunction.evaluate(options)\<close>, with \<open>numericMode\<close> the option of that name.
  \<open>N(options)\<close> is \<open>evaluate\<close> with \<open>numericMode\<close> set.
\<close>

definition evaluate :: "evaluate_env \<Rightarrow> boxed_function \<Rightarrow> bool \<Rightarrow> expr" where
  "evaluate E this numericMode =
     (if \<not> fn_isValid this then this_expr this
      else if numericMode \<and> (fn_head this = Name ''Integrate'' \<or> fn_head this = Name ''Limit'')
      then evaluate_of E (ce_box E (Fn ''N'' [this_expr this]))
      else if \<not> fn_isCanonical this then
        (let canonical = canonical_of E (this_expr this) in
         if \<not> isCanonical_of E canonical \<or> \<not> isValid_of E canonical then this_expr this
         else evaluate_of E canonical)
      else
        (let def = functionDefinition this in
         if (case def of None \<Rightarrow> False | Some d \<Rightarrow> threadable d)
            \<and> list_ex (isFiniteIndexableCollection E) (fn_ops this)
         then thread E (fn_head this) (fn_ops this)
         else
           (let tail = holdMap (flatten_ops E) (fn_ops this)
                         (case def of None \<Rightarrow> none_hold | Some d \<Rightarrow> hold d)
                         (case def of None \<Rightarrow> [] | Some d \<Rightarrow> if associative d then name d else [])
                         (\<lambda>x. Some (evaluate_of E x))
            in if (case def of None \<Rightarrow> False | Some d \<Rightarrow> inert d)
               then (case tail of [] \<Rightarrow> this_expr this | x # _ \<Rightarrow> x)
               else
                 (let result = (case fn_head this of
                                  Name _ \<Rightarrow> None
                                | Compound h \<Rightarrow> Some (apply_fn E h tail));
                      result' = (case result of
                                   Some r \<Rightarrow> Some r
                                 | None \<Rightarrow> (case def of
                                              None \<Rightarrow> None
                                            | Some d \<Rightarrow> call_handlers d numericMode tail))
                  in case result' of
                       Some r \<Rightarrow> numeric_postfilter E r
                     | None \<Rightarrow> ce_fn E (fn_head this) tail))))"

definition N :: "evaluate_env \<Rightarrow> boxed_function \<Rightarrow> expr" where
  "N E this = evaluate E this True"





section \<open>The scope around the handlers\<close>

text \<open>
  A runtime scope is an object with a parent; the number tells two scope objects
  apart. The engine's \<open>context\<close> (here \<open>context_scope\<close>) is the current scope
  or \<open>null\<close>. A handler is called
  with the evaluated operands on the engine: it returns an expression or nothing, or
  throws, and it may change the engine.
\<close>

datatype scope = Scope nat "scope option"

record engine =
  context_scope :: "scope option"

datatype exn = Error string

type_synonym handler = "expr list \<Rightarrow> engine \<Rightarrow> (exn + expr option) \<times> engine"

definition swapScope :: "engine \<Rightarrow> scope option \<Rightarrow> scope option \<times> engine" where
  "swapScope eng scope = (context_scope eng, eng\<lparr>context_scope := scope\<rparr>)"

text \<open>
  Step 6 of \<open>BoxedFunction.evaluate\<close> on the engine: \<open>swapScope(this.scope)\<close>, the \<open>N\<close>
  handler in numeric mode, the \<open>evaluate\<close> handler when there is no result yet,
  \<open>swapScope(context)\<close>. There is no \<open>try\<close> around the calls: an exception leaves the
  block at the call that threw.
\<close>

definition evaluate_handlers ::
  "handler option \<Rightarrow> handler option \<Rightarrow> bool \<Rightarrow> scope option \<Rightarrow> expr list \<Rightarrow> engine \<Rightarrow>
   (exn + expr option) \<times> engine" where
  "evaluate_handlers sigN sigEvaluate numericMode scope tail eng =
     (case swapScope eng scope of
        (context0, eng1) \<Rightarrow>
          (case (if numericMode
                 then (case sigN of None \<Rightarrow> (Inr None, eng1) | Some n \<Rightarrow> n tail eng1)
                 else (Inr None, eng1)) of
             (Inl e, eng2) \<Rightarrow> (Inl e, eng2)
           | (Inr result, eng2) \<Rightarrow>
               (case (if result = None
                      then (case sigEvaluate of
                              None \<Rightarrow> (Inr result, eng2)
                            | Some ev \<Rightarrow> ev tail eng2)
                      else (Inr result, eng2)) of
                  (Inl e, eng3) \<Rightarrow> (Inl e, eng3)
                | (Inr result', eng3) \<Rightarrow> (Inr result', snd (swapScope eng3 context0)))))"

section \<open>Tensors\<close>

text \<open>
  The constructor of \<open>BoxedTensor\<close> from a head and operands (\<open>ce.canonical\<close> is a
  parameter; the expression is \<open>ce._fn(head, ops)\<close>) and from a tensor.
\<close>

definition new_BoxedTensor ::
  "(expr list \<Rightarrow> expr list) \<Rightarrow> string option \<Rightarrow> expr list \<Rightarrow> bool \<Rightarrow> expr" where
  "new_BoxedTensor ce_canonical input_head input_ops canonical =
     (let h = (case input_head of None \<Rightarrow> ''List'' | Some n \<Rightarrow> n);
          os = (if canonical then ce_canonical input_ops else input_ops)
      in BoxedTensor (Some h) (Some os) None (Some (Fn h os)))"

definition new_BoxedTensor_of_tensor :: "tensor \<Rightarrow> expr" where
  "new_BoxedTensor_of_tensor t = BoxedTensor None None (Some t) None"

text \<open>
  The methods \<open>evaluate\<close>, \<open>simplify\<close> and \<open>N\<close> and the getters \<open>isCanonical\<close>,
  \<open>isPure\<close> and \<open>isValid\<close> of \<open>BoxedTensor\<close>. Each answers at once when \<open>_tensor\<close> is
  set and asks the expression otherwise; the method or getter of the expression is the
  first parameter.
\<close>

definition BoxedTensor_evaluate :: "(expr \<Rightarrow> expr) \<Rightarrow> expr \<Rightarrow> expr" where
  "BoxedTensor_evaluate expression_evaluate this =
     (case this of
        BoxedTensor h os (Some t) e \<Rightarrow> this
      | _ \<Rightarrow> expression_evaluate (expression this))"

definition BoxedTensor_simplify :: "(expr \<Rightarrow> expr) \<Rightarrow> expr \<Rightarrow> expr" where
  "BoxedTensor_simplify expression_simplify this =
     (case this of
        BoxedTensor h os (Some t) e \<Rightarrow> this
      | _ \<Rightarrow> expression_simplify (expression this))"

definition BoxedTensor_N :: "(expr \<Rightarrow> expr) \<Rightarrow> expr \<Rightarrow> expr" where
  "BoxedTensor_N expression_N this =
     (case this of
        BoxedTensor h os (Some t) e \<Rightarrow> this
      | _ \<Rightarrow> expression_N (expression this))"

definition BoxedTensor_isCanonical :: "(expr \<Rightarrow> bool) \<Rightarrow> expr \<Rightarrow> bool" where
  "BoxedTensor_isCanonical expression_isCanonical this =
     (case this of
        BoxedTensor h os (Some t) e \<Rightarrow> True
      | _ \<Rightarrow> expression_isCanonical (expression this))"

definition BoxedTensor_isPure :: "(expr \<Rightarrow> bool) \<Rightarrow> expr \<Rightarrow> bool" where
  "BoxedTensor_isPure expression_isPure this =
     (case this of
        BoxedTensor h os (Some t) e \<Rightarrow> True
      | _ \<Rightarrow> expression_isPure (expression this))"

definition BoxedTensor_isValid :: "(expr \<Rightarrow> bool) \<Rightarrow> expr \<Rightarrow> bool" where
  "BoxedTensor_isValid expression_isValid this =
     (case this of
        BoxedTensor h os (Some t) e \<Rightarrow> True
      | _ \<Rightarrow> expression_isValid (expression this))"

section \<open>Structural equality and hashes\<close>

text \<open>
  \<open>isSame\<close> of \<open>BoxedFunction\<close> and of \<open>BoxedTensor\<close>. The parameters are \<open>isSame\<close> of
  the literal classes (\<open>leaf_isSame\<close>) and \<open>this.tensor.equals(rhs.tensor)\<close> of two
  tensors (\<open>tensor_equals\<close>). The test \<open>this === rhs\<close> is read on values. A function
  is the same as another function only: same number of operands, same head, operands
  the same in order. A tensor compared with anything but a tensor asks its expression.
\<close>

fun isSame :: "(expr \<Rightarrow> expr \<Rightarrow> bool) \<Rightarrow> (expr \<Rightarrow> expr \<Rightarrow> bool) \<Rightarrow> expr \<Rightarrow> expr \<Rightarrow> bool"
and isSame_ops ::
  "(expr \<Rightarrow> expr \<Rightarrow> bool) \<Rightarrow> (expr \<Rightarrow> expr \<Rightarrow> bool) \<Rightarrow> expr list \<Rightarrow> expr list \<Rightarrow> bool"
where
  "isSame leaf_isSame tensor_equals (BoxedFunction (Name s) xs) rhs =
     (BoxedFunction (Name s) xs = rhs \<or>
      (case rhs of
         BoxedFunction h' ys \<Rightarrow>
           length xs = length ys \<and> h' = Name s
           \<and> isSame_ops leaf_isSame tensor_equals xs ys
       | _ \<Rightarrow> False))"
| "isSame leaf_isSame tensor_equals (BoxedFunction (Compound e) xs) rhs =
     (BoxedFunction (Compound e) xs = rhs \<or>
      (case rhs of
         BoxedFunction h' ys \<Rightarrow>
           length xs = length ys
           \<and> (case h' of Name s' \<Rightarrow> False
               | Compound e' \<Rightarrow> isSame leaf_isSame tensor_equals e e')
           \<and> isSame_ops leaf_isSame tensor_equals xs ys
       | _ \<Rightarrow> False))"
| "isSame leaf_isSame tensor_equals (BoxedTensor h os t (Some e)) rhs =
     (BoxedTensor h os t (Some e) = rhs \<or>
      (case rhs of
         BoxedTensor h' os' t' e' \<Rightarrow> tensor_equals (BoxedTensor h os t (Some e)) rhs
       | _ \<Rightarrow> isSame leaf_isSame tensor_equals e rhs))"
| "isSame leaf_isSame tensor_equals (BoxedTensor h os (Some (AbstractTensor shape data e)) None) rhs =
     (BoxedTensor h os (Some (AbstractTensor shape data e)) None = rhs \<or>
      (case rhs of
         BoxedTensor h' os' t' e' \<Rightarrow>
           tensor_equals (BoxedTensor h os (Some (AbstractTensor shape data e)) None) rhs
       | _ \<Rightarrow> isSame leaf_isSame tensor_equals e rhs))"
| "isSame leaf_isSame tensor_equals (BoxedTensor h os None None) rhs =
     (BoxedTensor h os None None = rhs)"
| "isSame leaf_isSame tensor_equals (BoxedNumber n) rhs = leaf_isSame (BoxedNumber n) rhs"
| "isSame leaf_isSame tensor_equals (BoxedSymbol n) rhs = leaf_isSame (BoxedSymbol n) rhs"
| "isSame leaf_isSame tensor_equals (BoxedString n) rhs = leaf_isSame (BoxedString n) rhs"
| "isSame_ops leaf_isSame tensor_equals [] ys = True"
| "isSame_ops leaf_isSame tensor_equals (x # xs) [] = False"
| "isSame_ops leaf_isSame tensor_equals (x # xs) (y # ys) =
     (isSame leaf_isSame tensor_equals x y \<and> isSame_ops leaf_isSame tensor_equals xs ys)"

text \<open>
  The getter \<open>hash\<close>. A hash is a JavaScript number, an integer here. In
  \<open>BoxedFunction\<close> the accumulator is a 32-bit integer (\<open>| 0\<close>): it is shifted left by
  one and combined by exclusive or with the hash of each operand in turn, then with the
  hash code of the head. In \<open>BoxedTensor\<close> the hash is the hash code of the class
  name. \<open>hashCode\<close> (of the utilities) and the hash of the literal classes are
  parameters.
\<close>

fun hash :: "(string \<Rightarrow> int) \<Rightarrow> (expr \<Rightarrow> int) \<Rightarrow> expr \<Rightarrow> int" where
  "hash hashCode leaf_hash (BoxedFunction (Name s) xs) =
     sint ((fold (\<lambda>op h. push_bit 1 h XOR word_of_int (hash hashCode leaf_hash op)) xs
              (0 :: 32 word))
           XOR word_of_int (hashCode s))"
| "hash hashCode leaf_hash (BoxedFunction (Compound e) xs) =
     sint ((fold (\<lambda>op h. push_bit 1 h XOR word_of_int (hash hashCode leaf_hash op)) xs
              (0 :: 32 word))
           XOR word_of_int (hash hashCode leaf_hash e))"
| "hash hashCode leaf_hash (BoxedTensor h os t e) = hashCode ''BoxedTensor''"
| "hash hashCode leaf_hash x = leaf_hash x"

section \<open>The number kernel and the arithmetic builders\<close>

text \<open>
  What the canonical forms and the solver's rules ask of an expression and of the engine,
  as parameters: the sign and kind predicates (a boolean, or undefined), the conversions
  \<open>asFloat\<close>, \<open>asSmallInteger\<close>, \<open>asRational\<close> and \<open>getImaginaryCoef\<close> (a value, or
  \<open>null\<close>), \<open>isIndexableCollection\<close>, \<open>sortAdd\<close>, \<open>factorPower\<close>, the product of two
  rationals, and the builders \<open>ce.number\<close>, \<open>ce.inv\<close>, \<open>ce.mul\<close> and \<open>ce.div\<close>.
\<close>

record kernel =
  isZero :: "expr \<Rightarrow> bool option"
  isOne :: "expr \<Rightarrow> bool option"
  isNegativeOne :: "expr \<Rightarrow> bool option"
  isPositive :: "expr \<Rightarrow> bool option"
  isNegative :: "expr \<Rightarrow> bool option"
  isInfinity :: "expr \<Rightarrow> bool option"
  isReal :: "expr \<Rightarrow> bool option"
  isNonNegative :: "expr \<Rightarrow> bool option"
  asFloat :: "expr \<Rightarrow> number option"
  asSmallInteger :: "expr \<Rightarrow> int option"
  asRational :: "expr \<Rightarrow> (int \<times> int) option"
  getImaginaryCoef :: "expr \<Rightarrow> number option"
  isIndexableCollection :: "expr \<Rightarrow> bool"
  sortAdd :: "expr list \<Rightarrow> expr list"
  factorPower :: "int \<Rightarrow> int \<Rightarrow> int \<times> int"
  mul_rational :: "int \<times> int \<Rightarrow> int \<times> int \<Rightarrow> int \<times> int"
  ce_number :: "numeric \<Rightarrow> expr"
  ce_inv :: "expr \<Rightarrow> expr"
  ce_mul :: "expr list \<Rightarrow> expr"
  ce_div :: "expr \<Rightarrow> expr \<Rightarrow> expr"

section \<open>The canonical form of Add\<close>

text \<open>
  The test for a complex number in \<open>canonicalAdd\<close>, on the two operands that remain:
  the values of \<open>re\<close> and \<open>im\<close> after the \<open>if ... else\<close>, then the final test.
\<close>

definition complex_of_two :: "kernel \<Rightarrow> expr \<Rightarrow> expr \<Rightarrow> expr option" where
  "complex_of_two K x y =
     (let re0 = asFloat K x;
          re_im =
            (if re0 \<noteq> None \<and> re0 \<noteq> Some (Finite 0) then (re0, getImaginaryCoef K y)
             else (let im = getImaginaryCoef K x in
                   if im \<noteq> Some (Finite 0) \<and> numericValue y \<noteq> None then (asFloat K y, im)
                   else (re0, im)))
      in case re_im of
           (Some re, Some im) \<Rightarrow>
             if im \<noteq> Finite 0 then Some (ce_number K (Complex re im)) else None
         | _ \<Rightarrow> None)"

definition canonicalAdd :: "kernel \<Rightarrow> expr list \<Rightarrow> expr" where
  "canonicalAdd K xs =
     (let xs' = filter (\<lambda>x. numericValue x = None \<or> isZero K x \<noteq> Some True) xs in
      if length xs' = 0 then Zero
      else if length xs' = 1 \<and> \<not> isIndexableCollection K (xs' ! 0) then xs' ! 0
      else (case (if length xs' = 2 then complex_of_two K (xs' ! 0) (xs' ! 1) else None) of
              Some z \<Rightarrow> z
            | None \<Rightarrow> Fn ''Add'' (if length xs' > 1 then sortAdd K xs' else xs')))"

text \<open>An operand that is a literal zero: a numeric literal whose \<open>isZero\<close> is true.\<close>

definition literal_zero :: "kernel \<Rightarrow> expr \<Rightarrow> bool" where
  "literal_zero K x = (numericValue x \<noteq> None \<and> isZero K x = Some True)"

section \<open>The univariate solver\<close>

text \<open>
  \<open>has(x)\<close> for one name. For a function it is the method of \<open>BoxedFunction\<close>: the head
  is the name, or an operand has it.

  Modelled from the spec: \<open>has\<close> of the other classes, which are not among the sources: a
  symbol has its own name, a number and a string have none; a tensor is asked through
  its expression.
\<close>

fun has :: "expr \<Rightarrow> string \<Rightarrow> bool" where
  "has (BoxedFunction (Name n) xs) x = (n = x \<or> list_ex (\<lambda>arg. has arg x) xs)"
| "has (BoxedFunction (Compound h) xs) x = list_ex (\<lambda>arg. has arg x) xs"
| "has (BoxedSymbol n) x = (n = x)"
| "has (BoxedTensor h os t (Some e)) x = has e x"
| "has (BoxedTensor h os (Some (AbstractTensor shape data e)) None) x = has e x"
| "has e x = False"

text \<open>
  A rule: the pattern to match, the replacement, an optional id and an optional
  condition on the bindings and the engine. Patterns are written as expressions;
  a name that starts with an underscore is a capture.
\<close>

record rule =
  match :: expr
  replace :: expr
  rule_id :: "string option"
  condition :: "(kernel \<Rightarrow> (string \<Rightarrow> expr) \<Rightarrow> bool) option"

abbreviation Sym :: "string \<Rightarrow> expr" where
  "Sym s \<equiv> BoxedSymbol s"

abbreviation Num :: "rat \<Rightarrow> expr" where
  "Num q \<equiv> BoxedNumber (Machine (Finite q))"

definition exp_condition :: "kernel \<Rightarrow> (string \<Rightarrow> expr) \<Rightarrow> bool" where
  "exp_condition K b =
     ((isZero K (b ''__a'') \<noteq> Some True
       \<and> isNegative K (ce_div K (b ''__c'') (b ''__a'')) = Some True)
      \<and> \<not> has (b ''__a'') ''_x'' \<and> \<not> has (b ''__c'') ''_x'')"

definition quadratic_condition :: "kernel \<Rightarrow> (string \<Rightarrow> expr) \<Rightarrow> bool" where
  "quadratic_condition K b =
     (\<not> has (b ''__a'') ''_x'' \<and> \<not> has (b ''__b'') ''_x'' \<and> \<not> has (b ''__c'') ''_x'')"

definition quadratic_match :: expr where
  "quadratic_match =
     Fn ''Add'' [Fn ''Multiply'' [Sym ''__a'', Fn ''Power'' [Sym ''_x'', Num 2]],
                 Fn ''Multiply'' [Sym ''__b'', Sym ''_x''], Sym ''__c'']"

definition quadratic_replace :: "string \<Rightarrow> expr" where
  "quadratic_replace sign =
     Fn ''Divide''
       [Fn sign [Fn ''Negate'' [Sym ''__b''],
                 Fn ''Sqrt'' [Fn ''Subtract'' [Fn ''Square'' [Sym ''__b''],
                                               Fn ''Multiply'' [Num 4, Sym ''__a'', Sym ''__c'']]]],
        Fn ''Multiply'' [Num 2, Sym ''__a'']]"

definition UNIVARIATE_ROOTS :: "rule list" where
  "UNIVARIATE_ROOTS =
     [\<lparr> match = Fn ''Multiply'' [Sym ''_x'', Sym ''__a''],
        replace = Num 0,
        rule_id = Some ''ax'',
        condition = Some (\<lambda>K b. \<not> has (b ''__a'') ''_x'') \<rparr>,
      \<lparr> match = Fn ''Add'' [Fn ''Divide'' [Sym ''_a'', Sym ''_x''], Sym ''__b''],
        replace = BoxedNumber (Machine Infinity),
        rule_id = None,
        condition = Some (\<lambda>K b. \<not> has (b ''_a'') ''_x'' \<and> \<not> has (b ''__b'') ''_x'') \<rparr>,
      \<lparr> match = Fn ''Add'' [Fn ''Multiply'' [Sym ''_x'', Sym ''__a''], Sym ''__b''],
        replace = Fn ''Divide'' [Fn ''Negate'' [Sym ''__b''], Sym ''__a''],
        rule_id = None,
        condition = Some (\<lambda>K b. \<not> has (b ''__a'') ''_x'' \<and> \<not> has (b ''__b'') ''_x'') \<rparr>,
      \<lparr> match = Fn ''Add'' [Fn ''Multiply'' [Sym ''_a'', Fn ''Power'' [Sym ''_x'', Sym ''_n'']],
                            Sym ''__b''],
        replace = Fn ''Divide'' [Fn ''Power'' [Fn ''Negate'' [Sym ''__b''],
                                               Fn ''Divide'' [Num 1, Sym ''_n'']],
                                 Sym ''_a''],
        rule_id = None,
        condition = Some (\<lambda>K b. \<not> has (b ''_a'') ''_x'' \<and> \<not> has (b ''__b'') ''_x''
                                 \<and> isZero K (b ''_n'') \<noteq> Some True) \<rparr>,
      \<lparr> match = quadratic_match, replace = quadratic_replace ''Add'',
        rule_id = None, condition = Some quadratic_condition \<rparr>,
      \<lparr> match = quadratic_match, replace = quadratic_replace ''Subtract'',
        rule_id = None, condition = Some quadratic_condition \<rparr>,
      \<lparr> match = Fn ''Add'' [Fn ''Multiply'' [Sym ''__a'',
                                              Fn ''Exp'' [Fn ''Multiply'' [Sym ''__b'', Sym ''_x'']]],
                            Sym ''__c''],
        replace = Fn ''Divide'' [Fn ''Ln'' [Fn ''Negate'' [Fn ''Divide'' [Sym ''__c'', Sym ''__a'']]],
                                 Sym ''__b''],
        rule_id = None, condition = Some exp_condition \<rparr>,
      \<lparr> match = Fn ''Add'' [Fn ''Multiply'' [Sym ''__a'', Fn ''Exp'' [Sym ''_x'']], Sym ''__c''],
        replace = Fn ''Ln'' [Fn ''Negate'' [Fn ''Divide'' [Sym ''__c'', Sym ''__a'']]],
        rule_id = None, condition = Some exp_condition \<rparr>]"

definition abs_match :: expr where
  "abs_match =
     Fn ''Add'' [Fn ''Abs'' [Fn ''Add'' [Fn ''Multiply'' [Sym ''__a'', Sym ''_x''], Sym ''__b'']],
                 Sym ''__c'']"

definition has_x_condition :: "kernel \<Rightarrow> (string \<Rightarrow> expr) \<Rightarrow> bool" where
  "has_x_condition K b = has (b ''_a'') ''_x''"

definition HARMONIZATION_RULES :: "rule list" where
  "HARMONIZATION_RULES =
     [\<lparr> match = abs_match,
        replace = Fn ''Add'' [Fn ''Multiply'' [Sym ''__a'', Sym ''_x''], Sym ''__b'', Sym ''__c''],
        rule_id = None, condition = None \<rparr>,
      \<lparr> match = abs_match,
        replace = Fn ''Add'' [Fn ''Negate'' [Fn ''Multiply'' [Sym ''__a'', Sym ''_x'']],
                              Fn ''Negate'' [Sym ''__b''], Sym ''__c''],
        rule_id = None, condition = None \<rparr>,
      \<lparr> match = Fn ''Multiply'' [Sym ''__a'', Fn ''Power'' [Sym ''_b'', Sym ''_n'']],
        replace = Sym ''_b'',
        rule_id = None,
        condition = Some (\<lambda>K b. \<not> has (b ''__a'') ''_x'' \<and> has (b ''_b'') ''_x''
                                 \<and> isZero K (b ''_n'') \<noteq> Some True) \<rparr>,
      \<lparr> match = Fn ''Multiply'' [Sym ''__a'', Fn ''Sqrt'' [Sym ''_b'']],
        replace = Fn ''Multiply'' [Fn ''Square'' [Sym ''_a''], Sym ''__b''],
        rule_id = None,
        condition = Some (\<lambda>K b. has (b ''_b'') ''_x'') \<rparr>,
      \<lparr> match = Fn ''Divide'' [Sym ''_a'', Sym ''_b''],
        replace = Sym ''_a'',
        rule_id = None,
        condition = Some (\<lambda>K b. has (b ''_a'') ''_x'' \<and> isZero K (b ''_b'') \<noteq> Some True) \<rparr>,
      \<lparr> match = Fn ''Multiply'' [Sym ''__a'', Sym ''_b''],
        replace = Sym ''_b'',
        rule_id = None,
        condition = Some (\<lambda>K b. \<not> has (b ''__a'') ''_x'' \<and> has (b ''_b'') ''_x'') \<rparr>,
      \<lparr> match = Fn ''Add'' [Fn ''Ln'' [Sym ''_a''], Fn ''Ln'' [Sym ''_b''], Sym ''__c''],
        replace = Fn ''Add'' [Fn ''Ln'' [Fn ''Multiply'' [Sym ''_a'', Sym ''_b'']], Sym ''__c''],
        rule_id = None, condition = None \<rparr>,
      \<lparr> match = Fn ''Multiply'' [Fn ''Exp'' [Sym ''__a''], Fn ''Exp'' [Sym ''__b''], Sym ''__c''],
        replace = Fn ''Multiply'' [Fn ''Exp'' [Fn ''Add'' [Sym ''_a'', Sym ''_b'']], Sym ''__c''],
        rule_id = None, condition = None \<rparr>,
      \<lparr> match = Fn ''Ln'' [Sym ''_a''],
        replace = Fn ''Subtract'' [Sym ''_a'', Num 1],
        rule_id = None, condition = Some has_x_condition \<rparr>,
      \<lparr> match = Fn ''Sin'' [Sym ''_a''],
        replace = Sym ''_a'',
        rule_id = None, condition = Some has_x_condition \<rparr>,
      \<lparr> match = Fn ''Cos'' [Sym ''_a''],
        replace = Fn ''Subtract'' [Sym ''_a'', Fn ''Divide'' [Sym ''Pi'', Num 2]],
        rule_id = None, condition = Some has_x_condition \<rparr>,
      \<lparr> match = Fn ''Tan'' [Sym ''_a''],
        replace = Sym ''_a'',
        rule_id = None, condition = Some has_x_condition \<rparr>,
      \<lparr> match = Fn ''Add'' [Fn ''Sin'' [Sym ''_a''], Fn ''Cos'' [Sym ''_a'']],
        replace = Num 1,
        rule_id = None, condition = Some has_x_condition \<rparr>,
      \<lparr> match = Fn ''Subtract'' [Fn ''Square'' [Fn ''Sin'' [Sym ''_a'']],
                                 Fn ''Square'' [Fn ''Cos'' [Sym ''_a'']]],
        replace = Fn ''PlusMinus'' [Fn ''Sin'' [Sym ''_a''],
                                    Fn ''Divide'' [Fn ''Sqrt'' [Num 2], Num 2]],
        rule_id = None, condition = Some has_x_condition \<rparr>]"

text \<open>
  \<open>ce.cache(cacheName, build)\<close>: the value kept under the name when there is one, and
  otherwise the value that \<open>build\<close> gives, kept from then on. The store is part of the
  engine's state, so the function returns it. Here every cached value is a boxed rule
  set.
\<close>

definition cache :: "(string \<Rightarrow> 'r option) \<Rightarrow> string \<Rightarrow> 'r \<Rightarrow> 'r \<times> (string \<Rightarrow> 'r option)" where
  "cache c cacheName build =
     (case c cacheName of
        None \<Rightarrow> (build, c(cacheName \<mapsto> build))
      | Some v \<Rightarrow> (v, c))"

text \<open>
  What the solver calls in other modules, as parameters: \<open>boxRules\<close> and \<open>matchRules\<close>
  of the rules module (the boxed rule set is of any type), \<open>expand\<close>, and the methods
  \<open>simplify\<close>, \<open>canonical\<close>, \<open>evaluate\<close> and \<open>subs\<close> (the substitution of a name by
  \<open>_x\<close>, not canonical) and the builders \<open>ce.add\<close> and \<open>ce.neg\<close>.
\<close>

record 'r solver_env =
  boxRules :: "rule list \<Rightarrow> 'r"
  matchRules :: "expr \<Rightarrow> 'r \<Rightarrow> (string \<times> expr) list \<Rightarrow> expr list"
  expand :: "expr \<Rightarrow> expr option"
  simplify_of :: "expr \<Rightarrow> expr"
  canonical_form :: "expr \<Rightarrow> expr"
  evaluate_root :: "expr \<Rightarrow> expr"
  subs_x :: "expr \<Rightarrow> string \<Rightarrow> expr"
  ce_add :: "expr list \<Rightarrow> expr"
  ce_neg :: "expr \<Rightarrow> expr"

definition harmonize ::
  "'r solver_env \<Rightarrow> (string \<Rightarrow> 'r option) \<Rightarrow> expr \<Rightarrow> expr list \<times> (string \<Rightarrow> 'r option)" where
  "harmonize S c e =
     (case cache c ''univariate-roots-rules'' (boxRules S HARMONIZATION_RULES) of
        (rules, c') \<Rightarrow> (matchRules S e rules [(''_x'', Sym ''_x'')], c'))"

text \<open>\<open>exprs.flatMap((expr) => harmonize(expr))\<close>, the cache passed along.\<close>

fun harmonize_all ::
  "'r solver_env \<Rightarrow> (string \<Rightarrow> 'r option) \<Rightarrow> expr list \<Rightarrow> expr list \<times> (string \<Rightarrow> 'r option)" where
  "harmonize_all S c [] = ([], c)"
| "harmonize_all S c (e # es) =
     (case harmonize S c e of
        (r, c1) \<Rightarrow> (case harmonize_all S c1 es of (rs, c2) \<Rightarrow> (r @ rs, c2)))"

definition findUnivariateRoots ::
  "'r solver_env \<Rightarrow> (string \<Rightarrow> 'r option) \<Rightarrow> expr \<Rightarrow> string \<Rightarrow>
   expr list \<times> (string \<Rightarrow> 'r option)" where
  "findUnivariateRoots S c e x =
     (let e1 = (if head_is e ''Equal''
                then simplify_of S
                       (ce_add S [canonical_form S (op1 e), ce_neg S (canonical_form S (op2 e))])
                else e)
      in case cache c ''univariate-roots-rules'' (boxRules S UNIVARIATE_ROOTS) of
           (rules, c1) \<Rightarrow>
             (let exprs = [subs_x S e1 x];
                  result = concat (map (\<lambda>e. matchRules S e rules [(''_x'', Sym ''_x'')]) exprs)
              in if length result \<noteq> 0 then (map (evaluate_root S) result, c1)
                 else
                   (case harmonize_all S c1 exprs of
                      (exprs2, c2) \<Rightarrow>
                        (let result2 =
                               concat (map (\<lambda>e. matchRules S e rules [(''_x'', Sym x)]) exprs2)
                         in if length result2 \<noteq> 0 then (map (evaluate_root S) result2, c2)
                            else
                              (case harmonize_all S c2
                                      (concat (map (\<lambda>e. case expand S (canonical_form S e) of
                                                           None \<Rightarrow> []
                                                         | Some e' \<Rightarrow> [e']) exprs2)) of
                                 (exprs3, c3) \<Rightarrow>
                                   (map (evaluate_root S)
                                      (concat (map (\<lambda>e. matchRules S e rules [(''_x'', Sym x)])
                                                 exprs3)),
                                    c3))))))"

section \<open>The canonical form of Power\<close>

text \<open>Comparisons of a JavaScript number with zero; not-a-number compares false.\<close>

fun less_zero :: "number \<Rightarrow> bool" where
  "less_zero (Finite q) = (q < 0)"
| "less_zero MinusInfinity = True"
| "less_zero n = False"

fun greater_zero :: "number \<Rightarrow> bool" where
  "greater_zero (Finite q) = (0 < q)"
| "greater_zero Infinity = True"
| "greater_zero n = False"

definition is_integer :: "rat \<Rightarrow> bool" where
  "is_integer q = (of_int \<lfloor>q\<rfloor> = q)"

text \<open>
  The square-root case of \<open>canonicalPower\<close>: the exponent is \<open>0.5\<close> (\<open>positive\<close>) or
  \<open>-0.5\<close>. A small positive integer base has its square factors taken out.
\<close>

definition canonicalPower_sqrt :: "kernel \<Rightarrow> expr \<Rightarrow> bool \<Rightarrow> expr" where
  "canonicalPower_sqrt K base positive =
     (let other = (if positive then Fn ''Power'' [base, Half]
                   else Fn ''Power'' [base, ce_number K (Rational (- 1) 2)])
      in case asSmallInteger K base of
           None \<Rightarrow> other
         | Some b \<Rightarrow>
             if 0 < b then
               (case factorPower K b 2 of
                  (coef, radicand) \<Rightarrow>
                    if radicand = 1 \<and> coef = 1 then One
                    else if coef \<noteq> 1 then
                      (if radicand = 1
                       then ce_number K (if positive then Machine (Finite (of_int coef))
                                         else Rational 1 coef)
                       else ce_mul K [ce_number K (Machine (Finite (of_int coef))),
                                      Fn ''Sqrt'' [ce_number K (Machine (Finite (of_int radicand)))]])
                    else if positive then Fn ''Sqrt'' [base]
                    else ce_inv K (Fn ''Sqrt'' [base]))
             else other)"

text \<open>The case of an infinite base: what it returns, or nothing when it falls through.\<close>

definition canonicalPower_infinite_base :: "kernel \<Rightarrow> expr \<Rightarrow> expr \<Rightarrow> expr option" where
  "canonicalPower_infinite_base K base exponent =
     (case (case numericValue exponent of
              Some (Complex re im) \<Rightarrow>
                if re = Finite 0 then Some NaN
                else if less_zero re then Some Zero
                else if greater_zero re then Some ComplexInfinity
                else None
            | _ \<Rightarrow> None) of
        Some r \<Rightarrow> Some r
      | None \<Rightarrow>
          if isNegative K base = Some True then
            (if isInfinity K exponent = Some True then Some NaN else None)
          else if isPositive K base = Some True then
            (if isNegativeOne K exponent = Some True then Some Zero
             else if isInfinity K exponent = Some True
             then Some (if isNegative K exponent = Some True then Zero else PositiveInfinity)
             else None)
          else None)"

text \<open>
  The block of \<open>canonicalPower\<close> for a numeric exponent and a numeric base: what it
  returns, or nothing when the function goes on to the power rule.
\<close>

definition canonicalPower_numeric :: "kernel \<Rightarrow> expr \<Rightarrow> expr \<Rightarrow> expr option" where
  "canonicalPower_numeric K base exponent =
     (if numericValue exponent \<noteq> None \<and> numericValue base \<noteq> None then
        (let numBase = asFloat K base in
         if numBase = Some (Finite 1) then Some One
         else if numBase = Some (Finite 0) \<and> isPositive K exponent = Some True then Some Zero
         else if numBase = Some (Finite 0) \<and> isNegative K exponent = Some True
         then Some ComplexInfinity
         else if isNegativeOne K exponent = Some True then Some (ce_inv K base)
         else (let e = asFloat K exponent in
               if e = Some (Finite (1 / 2)) \<or> e = Some (Finite (- (1 / 2)))
               then Some (canonicalPower_sqrt K base (e = Some (Finite (1 / 2))))
               else (case (if isInfinity K base = Some True
                           then canonicalPower_infinite_base K base exponent else None) of
                       Some r \<Rightarrow> Some r
                     | None \<Rightarrow>
                         if isInfinity K exponent = Some True
                            \<and> (isOne K base = Some True \<or> isNegativeOne K base = Some True)
                         then Some NaN else None)))
      else None)"

text \<open>
  The power rule: the base and the exponent that \<open>canonicalPower\<close> hands to \<open>ce.pow\<close>
  for \<open>(x^b)^a\<close>, or nothing when the rule does not apply.
\<close>

definition power_rule :: "kernel \<Rightarrow> expr \<Rightarrow> expr \<Rightarrow> (expr \<times> expr) option" where
  "power_rule K base exponent =
     (if head_is base ''Power'' \<and> isReal K (op1 base) = Some True then
        (case (case asSmallInteger K exponent of
                 None \<Rightarrow> None
               | Some a \<Rightarrow>
                   (case asSmallInteger K (op2 base) of
                      None \<Rightarrow> None
                    | Some b \<Rightarrow> Some (op1 base, ce_number K (Machine (Finite (of_int (a * b))))))) of
           Some r \<Rightarrow> Some r
         | None \<Rightarrow>
             if isNonNegative K (op1 base) = Some True then
               (case asRational K exponent of
                  None \<Rightarrow> None
                | Some ar \<Rightarrow>
                    (case asRational K (op2 base) of
                       None \<Rightarrow> None
                     | Some br \<Rightarrow>
                         Some (op1 base,
                               ce_number K (case mul_rational K ar br of
                                              (n, d) \<Rightarrow> Rational n d))))
             else None)
      else None)"

lemma size_op1:
  "head_is b ''Power'' \<Longrightarrow> size (op1 b) < size b"
proof (induction b rule: op1.induct)
  case (1 h xs)
  then show ?case by (cases xs) (simp_all add: Nothing_def)
next
  case (3 h os e)
  have "size (op1 e) \<le> size e"
    by (induction e rule: op1.induct) (auto simp: Nothing_def split: list.splits)
  then show ?case by simp
qed (simp_all add: head_is_def Nothing_def)

lemma size_ops:
  "ops b = Some xs \<Longrightarrow> x \<in> set xs \<Longrightarrow> size x < size b"
proof (induction b rule: ops.induct)
  case (1 h ys)
  then have "x \<in> set ys" by simp
  then have "size x \<le> size_list size ys" by (simp add: size_list_estimation')
  then show ?case by simp
qed auto

lemma size_power_rule:
  "power_rule K base exponent = Some (b, e) \<Longrightarrow> size b < size base"
  by (auto simp: power_rule_def size_op1 split: if_splits option.splits)

text \<open>
  The exponent that \<open>ce.pow\<close> receives: a number, a rational or a boxed expression.
  Modelled from the spec: the tests \<open>isRationalZero\<close> and \<open>isRationalOne\<close> of the
  rationals module, which is not among the sources: a zero numerator, and a numerator
  equal to the denominator.
\<close>

datatype exponent = ENumber number | ERational int int | EExpr expr

definition pow_exponent :: "exponent \<Rightarrow> exponent" where
  "pow_exponent ex =
     (case ex of
        EExpr x \<Rightarrow>
          (case numericValue x of
             Some (Machine n) \<Rightarrow> ENumber n
           | Some (Rational n d) \<Rightarrow> ERational n d
           | _ \<Rightarrow> ex)
      | _ \<Rightarrow> ex)"

text \<open>
  \<open>ce.pow(base, exponent)\<close> before it calls \<open>canonicalPower\<close>: the value it returns at
  once, or the boxed exponent for \<open>canonicalPower\<close>.
\<close>

definition pow_shortcut :: "kernel \<Rightarrow> expr \<Rightarrow> exponent \<Rightarrow> expr + expr" where
  "pow_shortcut K base ex0 =
     (let ex = pow_exponent ex0;
          boxed = (case ex of
                     ENumber n \<Rightarrow> ce_number K (Machine n)
                   | ERational n d \<Rightarrow> ce_number K (Rational n d)
                   | EExpr x \<Rightarrow> x)
      in
      if (case ex of ERational n d \<Rightarrow> n = 0 | _ \<Rightarrow> False) then Inl One
      else if (case ex of ERational n d \<Rightarrow> n = d | _ \<Rightarrow> False) then Inl base
      else
        (let e = (case ex of
                    ENumber n \<Rightarrow> Some n
                  | ERational n d \<Rightarrow> if d = 1 then Some (Finite (of_int n)) else None
                  | EExpr x \<Rightarrow> None)
         in
         if e = Some (Finite 0) then Inl One
         else if e = Some (Finite 1) then Inl base
         else if e = Some (Finite (- 1)) then
           (case numericValue base of
              Some (Machine (Finite q)) \<Rightarrow>
                if is_integer q then Inl (ce_number K (Rational 1 \<lfloor>q\<rfloor>)) else Inr boxed
            | Some (Decimal (Finite q)) \<Rightarrow>
                if is_integer q then Inl (ce_number K (Rational 1 \<lfloor>q\<rfloor>)) else Inr boxed
            | Some (Rational n d) \<Rightarrow> Inl (ce_number K (Rational d n))
            | _ \<Rightarrow> Inr boxed)
         else Inr boxed))"

text \<open>
  \<open>ce.pow\<close> and \<open>canonicalPower\<close>. \<open>makeNumericFunction\<close> gives the canonical form of
  \<open>Power(b, e)\<close> as \<open>ce.pow(b, e)\<close> on its canonical operands.
\<close>

function pow :: "kernel \<Rightarrow> expr \<Rightarrow> exponent \<Rightarrow> expr"
and canonicalPower :: "kernel \<Rightarrow> expr \<Rightarrow> expr \<Rightarrow> expr" where
  "pow K base ex =
     (case pow_shortcut K base ex of
        Inl r \<Rightarrow> r
      | Inr exponent \<Rightarrow> canonicalPower K base exponent)"
| "canonicalPower K base exponent =
     (if symbol exponent = Some ''ComplexInfinity'' then NaN
      else if isZero K exponent = Some True then One
      else if isOne K exponent = Some True then base
      else if isNegativeOne K exponent = Some True then ce_inv K base
      else
        (case canonicalPower_numeric K base exponent of
           Some r \<Rightarrow> r
         | None \<Rightarrow>
             (case power_rule K base exponent of
                Some (b, e) \<Rightarrow> pow K b (EExpr e)
              | None \<Rightarrow>
                  if head_is base ''Multiply'' \<and> asSmallInteger K exponent \<noteq> None
                  then Fn ''Multiply''
                         (map (\<lambda>x. pow K x (EExpr exponent))
                            (case ops base of None \<Rightarrow> [] | Some xs \<Rightarrow> xs))
                  else Fn ''Power'' [base, exponent])))"
  by pat_completeness auto
termination
proof (relation "measure (\<lambda>v. case v of
        Inl (K, base, ex) \<Rightarrow> 2 * size base + 1
      | Inr (K, base, exponent) \<Rightarrow> 2 * size base)")
  show "wf (measure (\<lambda>v. case v of
        Inl (K, base, ex) \<Rightarrow> 2 * size base + 1
      | Inr (K, base, exponent) \<Rightarrow> 2 * size base))"
    by simp
qed (auto dest: size_power_rule size_ops [OF sym] split: option.splits)

declare pow.simps [simp del] canonicalPower.simps [simp del]

text \<open>
  The exponents for which none of the first four returns of \<open>canonicalPower\<close> applies.
\<close>

definition no_exponent_shortcut :: "kernel \<Rightarrow> expr \<Rightarrow> bool" where
  "no_exponent_shortcut K exponent =
     (symbol exponent \<noteq> Some ''ComplexInfinity'' \<and> isZero K exponent \<noteq> Some True
      \<and> isOne K exponent \<noteq> Some True \<and> isNegativeOne K exponent \<noteq> Some True)"

section \<open>A kernel for concrete inputs\<close>

text \<open>
  Modelled from the spec: the number kernel on literals (its classes are not among the
  sources). The value of a finite real literal decides its sign predicates and its
  conversions; every predicate is undefined and every conversion is \<open>null\<close> on an
  expression that is not a numeric literal. The imaginary coefficient is that of a
  literal with no real part, of the imaginary unit or of a literal times the imaginary
  unit, and 0 otherwise. The builders make the plain node.
\<close>

definition literal_value :: "expr \<Rightarrow> rat option" where
  "literal_value x =
     (case numericValue x of
        Some (Machine (Finite q)) \<Rightarrow> Some q
      | Some (Decimal (Finite q)) \<Rightarrow> Some q
      | Some (Rational n d) \<Rightarrow> if d = 0 then None else Some (of_int n / of_int d)
      | _ \<Rightarrow> None)"

definition example_kernel :: kernel where
  "example_kernel =
     \<lparr> isZero = (\<lambda>x. map_option (\<lambda>q. q = 0) (literal_value x)),
       isOne = (\<lambda>x. map_option (\<lambda>q. q = 1) (literal_value x)),
       isNegativeOne = (\<lambda>x. map_option (\<lambda>q. q = - 1) (literal_value x)),
       isPositive = (\<lambda>x. map_option (\<lambda>q. 0 < q) (literal_value x)),
       isNegative = (\<lambda>x. map_option (\<lambda>q. q < 0) (literal_value x)),
       isInfinity = (\<lambda>x. map_option (\<lambda>q. False) (literal_value x)),
       isReal = (\<lambda>x. map_option (\<lambda>q. True) (literal_value x)),
       isNonNegative = (\<lambda>x. map_option (\<lambda>q. 0 \<le> q) (literal_value x)),
       asFloat = (\<lambda>x. map_option Finite (literal_value x)),
       asSmallInteger = (\<lambda>x. case literal_value x of
                                None \<Rightarrow> None
                              | Some q \<Rightarrow> if of_int \<lfloor>q\<rfloor> = q then Some \<lfloor>q\<rfloor> else None),
       asRational = (\<lambda>x. case numericValue x of
                            Some (Rational n d) \<Rightarrow> Some (n, d)
                          | _ \<Rightarrow> None),
       getImaginaryCoef =
         (\<lambda>x. if x = BoxedSymbol ''ImaginaryUnit'' then Some (Finite 1)
               else if head_is x ''Multiply'' \<and> op2 x = BoxedSymbol ''ImaginaryUnit''
               then map_option Finite (literal_value (op1 x))
               else (case numericValue x of
                       Some (Complex re im) \<Rightarrow> if re = Finite 0 then Some im else Some (Finite 0)
                     | _ \<Rightarrow> Some (Finite 0))),
       isIndexableCollection = (\<lambda>x. head_is x ''List''),
       sortAdd = (\<lambda>xs. xs),
       factorPower = (\<lambda>n k. (1, n)),
       mul_rational = (\<lambda>a b. (fst a * fst b, snd a * snd b)),
       ce_number = BoxedNumber,
       ce_inv = (\<lambda>x. Fn ''Divide'' [One, x]),
       ce_mul = (\<lambda>xs. Fn ''Multiply'' xs),
       ce_div = (\<lambda>a b. Fn ''Divide'' [a, b]) \<rparr>"

section \<open>Pattern matching, rule application and arithmetic for the solver\<close>

text \<open>
  Modelled from the spec: the pattern matcher of the rules module, which is not among
  the sources. A symbol whose name starts with an underscore is a capture: it matches
  one subject and binds it, and a capture that is bound already matches only a subject
  that is the same as its binding. A number or a string matches an equal literal, any
  other symbol the symbol of the same name. A function matches a function with the same
  head and as many operands, the operands matched in order with the substitution passed
  from left to right. The substitution is a list of bindings in order of insertion.
\<close>

definition is_capture :: "string \<Rightarrow> bool" where
  "is_capture n = (case n of [] \<Rightarrow> False | c # _ \<Rightarrow> c = CHR ''_'')"

fun match_pattern :: "(string \<times> expr) list \<Rightarrow> expr \<Rightarrow> expr \<Rightarrow> (string \<times> expr) list option"
and match_operands ::
  "(string \<times> expr) list \<Rightarrow> expr list \<Rightarrow> expr list \<Rightarrow> (string \<times> expr) list option"
where
  "match_pattern \<sigma> (BoxedSymbol n) subject =
     (if is_capture n then
        (case map_of \<sigma> n of
           Some v \<Rightarrow> if v = subject then Some \<sigma> else None
         | None \<Rightarrow> Some (\<sigma> @ [(n, subject)]))
      else if subject = BoxedSymbol n then Some \<sigma> else None)"
| "match_pattern \<sigma> (BoxedNumber v) subject =
     (if subject = BoxedNumber v then Some \<sigma> else None)"
| "match_pattern \<sigma> (BoxedString t) subject =
     (if subject = BoxedString t then Some \<sigma> else None)"
| "match_pattern \<sigma> (BoxedFunction h ps) subject =
     (case subject of
        BoxedFunction h' ss \<Rightarrow>
          if h = h' \<and> length ps = length ss then match_operands \<sigma> ps ss else None
      | _ \<Rightarrow> None)"
| "match_pattern \<sigma> (BoxedTensor h os t e) subject = None"
| "match_operands \<sigma> [] ss = Some \<sigma>"
| "match_operands \<sigma> (p # ps) [] = None"
| "match_operands \<sigma> (p # ps) (s # ss) =
     (case match_pattern \<sigma> p s of
        None \<Rightarrow> None
      | Some \<sigma>' \<Rightarrow> match_operands \<sigma>' ps ss)"

text \<open>
  Substitution in the operands of a function is \<open>BoxedFunction.subs\<close> without
  canonicalisation: the head stays, every operand is substituted.

  Modelled from the spec: substitution in the other classes: a symbol with a binding
  is replaced by it, every other leaf stays.
\<close>

fun subs :: "(string \<times> expr) list \<Rightarrow> expr \<Rightarrow> expr" where
  "subs \<sigma> (BoxedSymbol n) = (case map_of \<sigma> n of None \<Rightarrow> BoxedSymbol n | Some v \<Rightarrow> v)"
| "subs \<sigma> (BoxedFunction h xs) = BoxedFunction h (map (subs \<sigma>) xs)"
| "subs \<sigma> e = e"

text \<open>
  Modelled from the spec: \<open>matchRules\<close> of the rules module, which is not among the
  sources: each rule in order; a rule whose pattern matches from the initial bindings,
  and whose condition (if any) holds of the bindings, gives its replacement with the
  captures substituted; all results are collected. A capture without a binding reads
  as \<open>Nothing\<close> in a condition.
\<close>

definition binding :: "(string \<times> expr) list \<Rightarrow> string \<Rightarrow> expr" where
  "binding \<sigma> n = (case map_of \<sigma> n of None \<Rightarrow> Nothing | Some v \<Rightarrow> v)"

definition apply_rule :: "kernel \<Rightarrow> expr \<Rightarrow> (string \<times> expr) list \<Rightarrow> rule \<Rightarrow> expr list" where
  "apply_rule K e \<sigma>0 r =
     (case match_pattern \<sigma>0 (match r) e of
        None \<Rightarrow> []
      | Some \<sigma> \<Rightarrow>
          if (case condition r of None \<Rightarrow> True | Some c \<Rightarrow> c K (binding \<sigma>))
          then [subs \<sigma> (replace r)] else [])"

definition spec_matchRules ::
  "kernel \<Rightarrow> expr \<Rightarrow> rule list \<Rightarrow> (string \<times> expr) list \<Rightarrow> expr list" where
  "spec_matchRules K e rules \<sigma>0 = concat (map (apply_rule K e \<sigma>0) rules)"

text \<open>
  Modelled from the spec: evaluation of an arithmetic expression on exact rational
  literals with the primitives of the number kernel (negation, sum, difference,
  product, quotient, square and the square root of a perfect square). An expression
  that does not evaluate to a rational is left as it is.
\<close>

fun find_root :: "nat \<Rightarrow> nat \<Rightarrow> nat option" where
  "find_root m 0 = (if m = 0 then Some 0 else None)"
| "find_root m (Suc r) = (if Suc r * Suc r = m then Some (Suc r) else find_root m r)"

definition exact_sqrt :: "rat \<Rightarrow> rat option" where
  "exact_sqrt q =
     (if is_integer q \<and> 0 \<le> q
      then map_option (\<lambda>r. of_nat r) (find_root (nat \<lfloor>q\<rfloor>) (nat \<lfloor>q\<rfloor>))
      else None)"

definition arithmetic :: "string \<Rightarrow> rat list \<Rightarrow> rat option" where
  "arithmetic h vs =
     (if h = ''Add'' then Some (sum_list vs)
      else if h = ''Multiply'' then Some (prod_list vs)
      else if h = ''Negate'' then (case vs of [a] \<Rightarrow> Some (- a) | _ \<Rightarrow> None)
      else if h = ''Subtract'' then (case vs of [a, b] \<Rightarrow> Some (a - b) | _ \<Rightarrow> None)
      else if h = ''Divide''
      then (case vs of [a, b] \<Rightarrow> if b = 0 then None else Some (a / b) | _ \<Rightarrow> None)
      else if h = ''Square'' then (case vs of [a] \<Rightarrow> Some (a * a) | _ \<Rightarrow> None)
      else if h = ''Sqrt'' then (case vs of [a] \<Rightarrow> exact_sqrt a | _ \<Rightarrow> None)
      else None)"

fun evaluate_rational :: "expr \<Rightarrow> rat option" where
  "evaluate_rational (BoxedNumber v) = literal_value (BoxedNumber v)"
| "evaluate_rational (BoxedFunction (Name h) xs) =
     (let vs = map evaluate_rational xs in
      if list_all (\<lambda>v. v \<noteq> None) vs then arithmetic h (map the vs) else None)"
| "evaluate_rational e = None"

definition evaluate_arithmetic :: "expr \<Rightarrow> expr" where
  "evaluate_arithmetic e = (case evaluate_rational e of None \<Rightarrow> e | Some q \<Rightarrow> Num q)"

text \<open>
  The solver on these: the rule set boxed as it is, the modelled \<open>matchRules\<close> and
  evaluation, \<open>subs\<close> of the unknown by \<open>_x\<close>, \<open>ce.add\<close> as \<open>canonicalAdd\<close> on the
  flattened operands.

  Modelled from the spec: \<open>simplify\<close> and \<open>canonical\<close> leave a polynomial that is written
  in canonical form as it is, \<open>expand\<close> has nothing to expand in it, and \<open>ce.neg\<close> of a
  literal is the literal of the opposite value.
\<close>

definition spec_solver :: "(rule list) solver_env" where
  "spec_solver =
     \<lparr> boxRules = (\<lambda>rules. rules),
       matchRules = spec_matchRules example_kernel,
       expand = (\<lambda>e. None),
       simplify_of = (\<lambda>e. e),
       canonical_form = (\<lambda>e. e),
       evaluate_root = evaluate_arithmetic,
       subs_x = (\<lambda>e x. subs [(x, Sym ''_x'')] e),
       ce_add = (\<lambda>xs. canonicalAdd example_kernel (flattenOps xs ''Add'')),
       ce_neg = (\<lambda>e. case literal_value e of None \<Rightarrow> Fn ''Negate'' [e] | Some q \<Rightarrow> Num (- q)) \<rparr>"


section \<open>Properties\<close>

subsection \<open>Cost-biased acceptance\<close>

lemma cheapest_Some:
  "cheapest costFunction oldExpr (Some newExpr) =
     (if costFunction newExpr \<le> (6 / 5) * costFunction oldExpr then newExpr else oldExpr)"
  by (simp add: cheapest_def)

text \<open>
  Claim C6. In the rewrite loop, a candidate replacement handed to \<open>cheapest\<close> is the
  result exactly when its cost is at most 1.2 times the cost of the old expression;
  otherwise the old expression is the result. The same holds for the expression that one
  turn of the rule loop leaves in \<open>expr\<close>, and no candidate leaves it unchanged.
\<close>

theorem cheapest_accepts_iff_cost_within_bias:
  "cheapest costFunction oldExpr (Some newExpr) =
     (if costFunction newExpr \<le> (6 / 5) * costFunction oldExpr then newExpr else oldExpr)
   \<and> fst (rule_loop_body costFunction replaceRules oldExpr) =
     (case replaceRules oldExpr of
        None \<Rightarrow> oldExpr
      | Some newExpr' \<Rightarrow>
          if costFunction newExpr' \<le> (6 / 5) * costFunction oldExpr then newExpr'
          else oldExpr)"
  by (simp add: cheapest_Some rule_loop_body_def Let_def split: option.split)

theorem cheapest_accepts_iff_cost_within_bias_witness:
  "cheapest (\<lambda>e. case e of BoxedNumber _ \<Rightarrow> 5 | _ \<Rightarrow> 6)
     (BoxedNumber (Machine (Finite 2))) (Some (BoxedSymbol ''x'')) = BoxedSymbol ''x''
   \<and> cheapest (\<lambda>e. case e of BoxedNumber _ \<Rightarrow> 5 | _ \<Rightarrow> 7)
     (BoxedNumber (Machine (Finite 2))) (Some (BoxedSymbol ''x'')) = BoxedNumber (Machine (Finite 2))"
  using cheapest_accepts_iff_cost_within_bias
      [of "\<lambda>e. case e of BoxedNumber _ \<Rightarrow> 5 | _ \<Rightarrow> 6"
          "BoxedNumber (Machine (Finite 2))" "BoxedSymbol ''x''" "\<lambda>_. None"]
    cheapest_accepts_iff_cost_within_bias
      [of "\<lambda>e. case e of BoxedNumber _ \<Rightarrow> 5 | _ \<Rightarrow> 7"
          "BoxedNumber (Machine (Finite 2))" "BoxedSymbol ''x''" "\<lambda>_. None"]
  by simp

subsection \<open>Hold policies and operand positions\<close>

lemma shouldHold_held:
  "i < n \<Longrightarrow> shouldHold p (int n - 1) (int i) = held p n i"
  by (cases p) auto

lemma holdMap_loop_step:
  "k < n \<Longrightarrow>
   holdMap_loop p f (int n - 1) (int k) (x # xs) =
     spec_hold_cell p f n (k, x) @ holdMap_loop p f (int n - 1) (int (Suc k)) xs"
  by (simp add: spec_hold_cell_def shouldHold_held add.commute split: option.split)

lemma holdMap_loop_cells:
  "k + length xs = n \<Longrightarrow>
   holdMap_loop p f (int n - 1) (int k) xs =
     concat (map (spec_hold_cell p f n) (enumerate k xs))"
proof (induction xs arbitrary: k)
  case Nil
  then show ?case by simp
next
  case (Cons x xs)
  from Cons.prems have lt: "k < n" and rest: "Suc k + length xs = n" by simp_all
  show ?case
    by (simp only: holdMap_loop_step [OF lt] Cons.IH [OF rest] enumerate_simps
        list.map concat.simps)
qed

lemma holdMap_none_cells:
  "holdMap_none f xs = concat (map (spec_hold_cell none_hold f n) (enumerate k xs))"
  by (induction xs arbitrary: k) (simp_all add: spec_hold_cell_def Let_def split: option.split)

lemma makeCanonicalFunction_xs_step:
  "k < n \<Longrightarrow>
   makeCanonicalFunction_xs box canonical p (int n - 1) (int k) (x # xs) =
     canonical_cell box canonical p n (k, x)
     # makeCanonicalFunction_xs box canonical p (int n - 1) (int (Suc k)) xs"
  by (simp add: canonical_cell_def shouldHold_held add.commute Let_def)

lemma makeCanonicalFunction_xs_cells:
  "k + length xs = n \<Longrightarrow>
   makeCanonicalFunction_xs box canonical p (int n - 1) (int k) xs =
     map (canonical_cell box canonical p n) (enumerate k xs)"
proof (induction xs arbitrary: k)
  case Nil
  then show ?case by simp
next
  case (Cons x xs)
  from Cons.prems have lt: "k < n" and rest: "Suc k + length xs = n" by simp_all
  show ?case
    by (simp only: makeCanonicalFunction_xs_step [OF lt] Cons.IH [OF rest] enumerate_simps
        list.map)
qed

lemma holdMap_not_all:
  assumes "p \<noteq> all_hold"
  shows "holdMap fl xs p h f = (if xs = [] then [] else spec_holdMap_flat fl xs p h f)"
proof (cases "p = none_hold")
  case True
  then show ?thesis
    by (simp add: holdMap_def spec_holdMap_flat_def spec_holdMap_def Let_def
        holdMap_none_cells [of f _ "length (fl xs h)" 0])
next
  case False
  have "holdMap_loop p f (int (length (fl xs h)) - 1) (int 0) (fl xs h) =
      concat (map (spec_hold_cell p f (length (fl xs h))) (enumerate 0 (fl xs h)))"
    by (rule holdMap_loop_cells) simp
  with False assms show ?thesis
    by (simp add: holdMap_def spec_holdMap_flat_def spec_holdMap_def Let_def)
qed

text \<open>
  Claim C4, as the code has it. For an operand list of length \<open>n\<close>, \<open>shouldHold\<close>
  answers the hold table at every position. \<open>holdMap\<close> (simplify, evaluate, N) gives no
  operand list for none; under \<open>all\<close> it returns the flattened operands as they are;
  under every other policy it keeps a \<open>Hold\<close>, processes the operand of a
  \<open>ReleaseHold\<close> and processes any other operand exactly at the positions that are not
  held. \<open>makeCanonicalFunction\<close> boxes in canonical form exactly the operands at
  positions not held, and at a held position replaces a \<open>ReleaseHold\<close> by the canonical
  form of its operand.
\<close>

theorem hold_policy_selects_processed_operands:
  "(i < n \<longrightarrow> shouldHold p (int n - 1) (int i) = held p n i)
   \<and> holdMap fl xs p h f =
       (if xs = [] then []
        else if p = all_hold then fl xs h
        else spec_holdMap_flat fl xs p h f)
   \<and> makeCanonicalFunction_xs box canonical p (int (length xs) - 1) 0 xs =
       map (canonical_cell box canonical p (length xs)) (enumerate 0 xs)"
proof (intro conjI)
  show "i < n \<longrightarrow> shouldHold p (int n - 1) (int i) = held p n i"
    by (simp add: shouldHold_held)
  show "holdMap fl xs p h f =
       (if xs = [] then []
        else if p = all_hold then fl xs h
        else spec_holdMap_flat fl xs p h f)"
  proof (cases "p = all_hold")
    case True
    then show ?thesis by (simp add: holdMap_def Let_def)
  next
    case False
    then show ?thesis by (simp add: holdMap_not_all)
  qed
  have "makeCanonicalFunction_xs box canonical p (int (length xs) - 1) (int 0) xs =
       map (canonical_cell box canonical p (length xs)) (enumerate 0 xs)"
    by (rule makeCanonicalFunction_xs_cells) simp
  then show "makeCanonicalFunction_xs box canonical p (int (length xs) - 1) 0 xs =
       map (canonical_cell box canonical p (length xs)) (enumerate 0 xs)"
    by simp
qed

theorem hold_policy_selects_processed_operands_witness:
  "(0 < (2::nat) \<and> shouldHold first_hold (int 2 - 1) (int 0) = held first_hold 2 0)
   \<and> holdMap flattenOps
        [Fn ''Add'' [One, One], Fn ''ReleaseHold'' [BoxedSymbol ''x''],
         Fn ''Hold'' [BoxedSymbol ''y''], BoxedSymbol ''z'']
        first_hold [] (\<lambda>e. Some (Fn ''Evaluated'' [e])) =
        [Fn ''Add'' [One, One], Fn ''Evaluated'' [BoxedSymbol ''x''],
         Fn ''Hold'' [BoxedSymbol ''y''], Fn ''Evaluated'' [BoxedSymbol ''z'']]
   \<and> makeCanonicalFunction_xs (\<lambda>c e. if c then Fn ''Canonical'' [e] else e)
        (\<lambda>e. Fn ''Canonical'' [e]) first_hold (int (length [BoxedSymbol ''a'', BoxedSymbol ''b'']) - 1) 0
        [BoxedSymbol ''a'', BoxedSymbol ''b''] =
        [BoxedSymbol ''a'', Fn ''Canonical'' [BoxedSymbol ''b'']]"
  using hold_policy_selects_processed_operands
    [of 0 2 first_hold flattenOps
        "[Fn ''Add'' [One, One], Fn ''ReleaseHold'' [BoxedSymbol ''x''],
          Fn ''Hold'' [BoxedSymbol ''y''], BoxedSymbol ''z'']"
        "[]" "\<lambda>e. Some (Fn ''Evaluated'' [e])"
        "\<lambda>c e. if c then Fn ''Canonical'' [e] else e" "\<lambda>e. Fn ''Canonical'' [e]"]
    hold_policy_selects_processed_operands
    [of 0 2 first_hold flattenOps "[BoxedSymbol ''a'', BoxedSymbol ''b'']"
        "[]" "\<lambda>e. Some (Fn ''Evaluated'' [e])"
        "\<lambda>c e. if c then Fn ''Canonical'' [e] else e" "\<lambda>e. Fn ''Canonical'' [e]"]
  by (simp add: spec_holdMap_flat_def spec_holdMap_def spec_hold_cell_def canonical_cell_def
      head_is_def enumerate_eq_zip upt_rec)

text \<open>
  The claim as stated fails under the policy \<open>all\<close>: \<open>holdMap\<close> returns at once, so a
  \<open>ReleaseHold\<close> operand is neither processed nor unwrapped.
\<close>

theorem holdMap_all_keeps_ReleaseHold_counterexample:
  "holdMap flattenOps [Fn ''ReleaseHold'' [BoxedSymbol ''x'']] all_hold []
     (\<lambda>e. Some (Fn ''Evaluated'' [e])) = [Fn ''ReleaseHold'' [BoxedSymbol ''x'']]
   \<and> spec_holdMap_flat flattenOps [Fn ''ReleaseHold'' [BoxedSymbol ''x'']] all_hold []
     (\<lambda>e. Some (Fn ''Evaluated'' [e])) = [Fn ''Evaluated'' [BoxedSymbol ''x'']]
   \<and> holdMap flattenOps [Fn ''ReleaseHold'' [BoxedSymbol ''x'']] all_hold []
     (\<lambda>e. Some (Fn ''Evaluated'' [e])) \<noteq>
     spec_holdMap_flat flattenOps [Fn ''ReleaseHold'' [BoxedSymbol ''x'']] all_hold []
     (\<lambda>e. Some (Fn ''Evaluated'' [e]))"
  by (simp add: holdMap_def spec_holdMap_flat_def spec_holdMap_def spec_hold_cell_def
      head_is_def enumerate_eq_zip)

subsection \<open>Threading\<close>








subsection \<open>The scope on return and on an exception\<close>

lemma evaluate_handlers_returns:
  "evaluate_handlers sigN sigEvaluate numericMode scope tail eng = (Inr r, eng') \<Longrightarrow>
   context_scope eng' = context_scope eng"
  by (auto simp: evaluate_handlers_def swapScope_def
      split: if_splits option.splits prod.splits sum.splits)

lemma evaluate_handlers_N_throws:
  "numericMode \<Longrightarrow> sigN = Some n \<Longrightarrow>
   n tail (eng\<lparr>context_scope := scope\<rparr>) = (Inl e, eng') \<Longrightarrow>
   evaluate_handlers sigN sigEvaluate numericMode scope tail eng = (Inl e, eng')"
  by (simp add: evaluate_handlers_def swapScope_def)

lemma evaluate_handlers_evaluate_throws:
  "\<not> numericMode \<Longrightarrow> sigEvaluate = Some ev \<Longrightarrow>
   ev tail (eng\<lparr>context_scope := scope\<rparr>) = (Inl e, eng') \<Longrightarrow>
   evaluate_handlers sigN sigEvaluate numericMode scope tail eng = (Inl e, eng')"
  by (simp add: evaluate_handlers_def swapScope_def)

text \<open>
  Claim C9, as the code has it. When the handlers of \<open>evaluate\<close> (and of \<open>N\<close>, which is
  \<open>evaluate\<close> in numeric mode) return, the engine's context is the scope it was before
  the call, whatever the handlers did to it. When a handler throws, the exception
  leaves \<open>evaluate\<close> with the engine as the handler left it: the context is not set
  back.
\<close>

theorem evaluate_restores_scope_on_return:
  "(evaluate_handlers sigN sigEvaluate numericMode scope tail eng = (Inr r, eng') \<longrightarrow>
      context_scope eng' = context_scope eng)
   \<and> (numericMode \<and> sigN = Some n
        \<and> n tail (eng\<lparr>context_scope := scope\<rparr>) = (Inl e, eng'') \<longrightarrow>
      evaluate_handlers sigN sigEvaluate numericMode scope tail eng = (Inl e, eng''))
   \<and> (\<not> numericMode \<and> sigEvaluate = Some ev
        \<and> ev tail (eng\<lparr>context_scope := scope\<rparr>) = (Inl e, eng'') \<longrightarrow>
      evaluate_handlers sigN sigEvaluate numericMode scope tail eng = (Inl e, eng''))"
proof (intro conjI impI; (elim conjE)?)
  assume "evaluate_handlers sigN sigEvaluate numericMode scope tail eng = (Inr r, eng')"
  then show "context_scope eng' = context_scope eng"
    by (rule evaluate_handlers_returns)
next
  assume "numericMode" and "sigN = Some n"
    and "n tail (eng\<lparr>context_scope := scope\<rparr>) = (Inl e, eng'')"
  then show "evaluate_handlers sigN sigEvaluate numericMode scope tail eng = (Inl e, eng'')"
    by (rule evaluate_handlers_N_throws)
next
  assume "\<not> numericMode" and "sigEvaluate = Some ev"
    and "ev tail (eng\<lparr>context_scope := scope\<rparr>) = (Inl e, eng'')"
  then show "evaluate_handlers sigN sigEvaluate numericMode scope tail eng = (Inl e, eng'')"
    by (rule evaluate_handlers_evaluate_throws)
qed

theorem evaluate_restores_scope_on_return_witness:
  "evaluate_handlers None
     (Some (\<lambda>tail eng. (Inr (Some One), eng\<lparr>context_scope := None\<rparr>))) False
     (Some (Scope 0 None)) [] \<lparr>context_scope = Some (Scope 1 None)\<rparr> =
     (Inr (Some One), \<lparr>context_scope = Some (Scope 1 None)\<rparr>)
   \<and> context_scope \<lparr>context_scope = Some (Scope 1 None)\<rparr> = Some (Scope 1 None)
   \<and> evaluate_handlers (Some (\<lambda>tail eng. (Inl (Error ''timeout''), eng))) None True
     (Some (Scope 0 None)) [] \<lparr>context_scope = Some (Scope 1 None)\<rparr> =
     (Inl (Error ''timeout''), \<lparr>context_scope = Some (Scope 0 None)\<rparr>)"
  using evaluate_restores_scope_on_return
    [where sigN = None
       and sigEvaluate = "Some (\<lambda>tail eng. (Inr (Some One), eng\<lparr>context_scope := None\<rparr>))"
       and numericMode = False and scope = "Some (Scope 0 None)" and tail = "[]"
       and eng = "\<lparr>context_scope = Some (Scope 1 None)\<rparr>" and r = "Some One"
       and eng' = "\<lparr>context_scope = Some (Scope 1 None)\<rparr>"]
    evaluate_restores_scope_on_return
    [where sigN = "Some (\<lambda>tail eng. (Inl (Error ''timeout''), eng))"
       and sigEvaluate = None
       and numericMode = True and scope = "Some (Scope 0 None)" and tail = "[]"
       and eng = "\<lparr>context_scope = Some (Scope 1 None)\<rparr>"
       and n = "\<lambda>tail eng. (Inl (Error ''timeout''), eng)" and e = "Error ''timeout''"
       and eng'' = "\<lparr>context_scope = Some (Scope 0 None)\<rparr>"]
  by (simp add: evaluate_handlers_def swapScope_def)

text \<open>
  The claim as stated fails when a handler throws: after a timeout raised by the \<open>N\<close>
  handler the engine's context is the scope of the expression, not the scope the caller
  had.
\<close>

theorem scope_not_restored_after_timeout_counterexample:
  "context_scope (snd (evaluate_handlers
       (Some (\<lambda>tail eng. (Inl (Error ''timeout''), eng))) None True
       (Some (Scope 0 None)) [] \<lparr>context_scope = Some (Scope 1 None)\<rparr>))
     = Some (Scope 0 None)
   \<and> context_scope (snd (evaluate_handlers
       (Some (\<lambda>tail eng. (Inl (Error ''timeout''), eng))) None True
       (Some (Scope 0 None)) [] \<lparr>context_scope = Some (Scope 1 None)\<rparr>))
     \<noteq> context_scope \<lparr>context_scope = Some (Scope 1 None)\<rparr>"
  by (simp add: evaluate_handlers_def swapScope_def)

subsection \<open>Tensors under the evaluation passes\<close>

text \<open>
  Claim C10. A \<open>BoxedTensor\<close> whose \<open>_tensor\<close> is set is returned as it is by
  \<open>simplify\<close>, \<open>evaluate\<close> and \<open>N\<close>, and its \<open>isCanonical\<close>, \<open>isValid\<close> and \<open>isPure\<close>
  are true, whatever its expression would answer.
\<close>

theorem materialised_tensor_is_fixed_point:
  "BoxedTensor_simplify expression_simplify (BoxedTensor h os (Some t) e) =
     BoxedTensor h os (Some t) e
   \<and> BoxedTensor_evaluate expression_evaluate (BoxedTensor h os (Some t) e) =
     BoxedTensor h os (Some t) e
   \<and> BoxedTensor_N expression_N (BoxedTensor h os (Some t) e) = BoxedTensor h os (Some t) e
   \<and> BoxedTensor_isCanonical expression_isCanonical (BoxedTensor h os (Some t) e)
   \<and> BoxedTensor_isValid expression_isValid (BoxedTensor h os (Some t) e)
   \<and> BoxedTensor_isPure expression_isPure (BoxedTensor h os (Some t) e)"
  by (simp add: BoxedTensor_simplify_def BoxedTensor_evaluate_def BoxedTensor_N_def
      BoxedTensor_isCanonical_def BoxedTensor_isValid_def BoxedTensor_isPure_def)

theorem materialised_tensor_is_fixed_point_witness:
  "BoxedTensor_evaluate (\<lambda>x. Nothing)
     (new_BoxedTensor_of_tensor (AbstractTensor [2] [One, Zero] (Fn ''List'' [One, Zero]))) =
     new_BoxedTensor_of_tensor (AbstractTensor [2] [One, Zero] (Fn ''List'' [One, Zero]))
   \<and> BoxedTensor_isCanonical (\<lambda>x. False)
     (new_BoxedTensor_of_tensor (AbstractTensor [2] [One, Zero] (Fn ''List'' [One, Zero])))"
  using materialised_tensor_is_fixed_point
    [where expression_evaluate = "\<lambda>x. Nothing" and expression_isCanonical = "\<lambda>x. False"
       and h = None and os = None and e = None
       and t = "AbstractTensor [2] [One, Zero] (Fn ''List'' [One, Zero])"]
  by (simp add: new_BoxedTensor_of_tensor_def)

subsection \<open>Hashes of expressions that are the same\<close>

lemma isSame_tensor_function:
  "isSame leaf_isSame tensor_equals (new_BoxedTensor c None xs False) (Fn ''List'' xs)"
  by (simp add: new_BoxedTensor_def Let_def)

lemma hash_tensor:
  "hash hashCode leaf_hash (new_BoxedTensor c None xs False) = hashCode ''BoxedTensor''"
  by (simp add: new_BoxedTensor_def Let_def)

lemma hash_empty_List:
  "hash hashCode leaf_hash (Fn ''List'' []) = sint (word_of_int (hashCode ''List'') :: 32 word)"
  by simp

lemma hash_List_of_empty_List:
  "hash hashCode leaf_hash (Fn ''List'' [Fn ''List'' []]) = 0"
  by simp

text \<open>
  Claim C2 does not hold of the code. A tensor made from the operands \<open>xs\<close> is the same
  as the function expression \<open>List(xs)\<close>, but its hash is the hash code of the class
  name whatever \<open>xs\<close> is, while the hash of the function follows its operands. For the
  two pairs with \<open>xs\<close> empty and with \<open>xs\<close> the one operand \<open>List()\<close> the hashes agree only
  if \<open>hashCode\<close> sends both names to zero.
\<close>

theorem tensor_hash_ignores_operands:
  "isSame leaf_isSame tensor_equals (new_BoxedTensor c None xs False) (Fn ''List'' xs)
   \<and> hash hashCode leaf_hash (new_BoxedTensor c None xs False) = hashCode ''BoxedTensor''
   \<and> ((hash hashCode leaf_hash (new_BoxedTensor c None [] False) =
          hash hashCode leaf_hash (Fn ''List'' [])
        \<and> hash hashCode leaf_hash (new_BoxedTensor c None [Fn ''List'' []] False) =
          hash hashCode leaf_hash (Fn ''List'' [Fn ''List'' []]))
       = (hashCode ''BoxedTensor'' = 0
          \<and> sint (word_of_int (hashCode ''List'') :: 32 word) = 0))"
  unfolding hash_tensor hash_empty_List hash_List_of_empty_List
  using isSame_tensor_function [of leaf_isSame tensor_equals c xs]
  by auto

theorem tensor_hash_ignores_operands_witness:
  "isSame (\<lambda>a b. a = b) (\<lambda>a b. False) (new_BoxedTensor (\<lambda>xs. xs) None [One] False)
     (Fn ''List'' [One])
   \<and> hash (\<lambda>s. int (length s)) (\<lambda>e. 7) (new_BoxedTensor (\<lambda>xs. xs) None [One] False) = 11
   \<and> hash (\<lambda>s. int (length s)) (\<lambda>e. 7) (Fn ''List'' [One]) = 3"
  using tensor_hash_ignores_operands
    [where leaf_isSame = "\<lambda>a b. a = b" and tensor_equals = "\<lambda>a b. False"
       and c = "\<lambda>xs. xs" and xs = "[One]" and hashCode = "\<lambda>s. int (length s)"
       and leaf_hash = "\<lambda>e. 7"]
  by (simp add: One_def)

subsection \<open>The rule set that the harmonisation stage uses\<close>

lemma cache_again:
  "cache c k b = (v, c1) \<Longrightarrow> cache c1 k b' = (v, c1)"
  by (auto simp: cache_def split: option.splits)

lemma harmonize_after_roots:
  "cache c ''univariate-roots-rules'' (boxRules S UNIVARIATE_ROOTS) = (rules, c1) \<Longrightarrow>
   harmonize S c1 e = (matchRules S e rules [(''_x'', Sym ''_x'')], c1)"
  by (simp add: harmonize_def cache_again)

lemma harmonize_all_after_roots:
  "cache c ''univariate-roots-rules'' (boxRules S UNIVARIATE_ROOTS) = (rules, c1) \<Longrightarrow>
   harmonize_all S c1 es =
     (concat (map (\<lambda>e. matchRules S e rules [(''_x'', Sym ''_x'')]) es), c1)"
  by (induction es) (simp_all add: harmonize_after_roots)

lemma findUnivariateRoots_first_stage:
  assumes "cache c ''univariate-roots-rules'' (boxRules S UNIVARIATE_ROOTS) = (rules, c1)"
  shows "findUnivariateRoots S c e x =
     (map (evaluate_root S)
        (matchRules S
           (subs_x S
              (if head_is e ''Equal''
               then simplify_of S
                      (ce_add S [canonical_form S (op1 e), ce_neg S (canonical_form S (op2 e))])
               else e) x)
           rules [(''_x'', Sym ''_x'')]), c1)"
proof -
  note h = harmonize_all_after_roots [OF assms]
  show ?thesis
    by (simp add: findUnivariateRoots_def Let_def assms h del: harmonize_all.simps)
qed

lemma rule_sets_differ:
  "map match UNIVARIATE_ROOTS \<noteq> map match HARMONIZATION_RULES"
  by (simp add: UNIVARIATE_ROOTS_def HARMONIZATION_RULES_def)

lemma harmonize_of_sine:
  "fst (harmonize spec_solver
          (snd (cache Map.empty ''univariate-roots-rules'' (boxRules spec_solver UNIVARIATE_ROOTS)))
          (Fn ''Sin'' [Sym ''_x''])) = []"
  "spec_matchRules example_kernel (Fn ''Sin'' [Sym ''_x'']) HARMONIZATION_RULES
     [(''_x'', Sym ''_x'')] = [Sym ''_x'']"
  by (simp_all add: harmonize_def cache_def spec_solver_def spec_matchRules_def apply_rule_def
      UNIVARIATE_ROOTS_def HARMONIZATION_RULES_def quadratic_match_def abs_match_def
      is_capture_def has_x_condition_def binding_def)

text \<open>
  Claim C1 does not hold of the code. \<open>harmonize\<close> asks the cache for its rules under
  the name that \<open>findUnivariateRoots\<close> has just filled with the root rules, so it gets
  the root rules and never boxes \<open>HARMONIZATION_RULES\<close>: the harmonised forms of an
  expression are its matches against the root rule set. Hence the roots that
  \<open>findUnivariateRoots\<close> returns are those of the first attempt, and there are none when
  the first attempt finds none. The two rule sets are not the same: for \<open>Sin(_x)\<close>
  the root rules give no form where the harmonisation rules give \<open>_x\<close>
  (\<open>harmonize_of_sine\<close>).
\<close>

theorem harmonize_applies_root_rules:
  "(cache c ''univariate-roots-rules'' (boxRules S UNIVARIATE_ROOTS) = (rules, c1) \<longrightarrow>
      harmonize S c1 e' = (matchRules S e' rules [(''_x'', Sym ''_x'')], c1)
      \<and> findUnivariateRoots S c e x =
          (map (evaluate_root S)
             (matchRules S
                (subs_x S
                   (if head_is e ''Equal''
                    then simplify_of S
                           (ce_add S [canonical_form S (op1 e),
                                      ce_neg S (canonical_form S (op2 e))])
                    else e) x)
                rules [(''_x'', Sym ''_x'')]), c1))
   \<and> (c ''univariate-roots-rules'' = None \<longrightarrow>
        fst (cache c ''univariate-roots-rules'' (boxRules S UNIVARIATE_ROOTS)) =
          boxRules S UNIVARIATE_ROOTS)
   \<and> map match UNIVARIATE_ROOTS \<noteq> map match HARMONIZATION_RULES"
  using harmonize_after_roots [of c S rules c1 e']
    findUnivariateRoots_first_stage [of c S rules c1 e x] rule_sets_differ
  by (simp add: cache_def)

theorem harmonize_applies_root_rules_witness:
  "harmonize
     \<lparr> boxRules = map match, matchRules = (\<lambda>e rules b. rules), expand = (\<lambda>e. None),
       simplify_of = (\<lambda>e. e), canonical_form = (\<lambda>e. e), evaluate_root = (\<lambda>e. e),
       subs_x = (\<lambda>e x. e), ce_add = Fn ''Add'', ce_neg = (\<lambda>e. Fn ''Negate'' [e]) \<rparr>
     [''univariate-roots-rules'' \<mapsto> map match UNIVARIATE_ROOTS]
     (Fn ''Sin'' [Sym ''_x'']) =
     (map match UNIVARIATE_ROOTS, [''univariate-roots-rules'' \<mapsto> map match UNIVARIATE_ROOTS])"
  using harmonize_applies_root_rules
    [where c = Map.empty
       and S = "\<lparr> boxRules = map match, matchRules = (\<lambda>e rules b. rules), expand = (\<lambda>e. None),
         simplify_of = (\<lambda>e. e), canonical_form = (\<lambda>e. e), evaluate_root = (\<lambda>e. e),
         subs_x = (\<lambda>e x. e), ce_add = Fn ''Add'', ce_neg = (\<lambda>e. Fn ''Negate'' [e]) \<rparr>"
       and rules = "map match UNIVARIATE_ROOTS"
       and ?c1.0 = "[''univariate-roots-rules'' \<mapsto> map match UNIVARIATE_ROOTS]"
       and e' = "Fn ''Sin'' [Sym ''_x'']"]
  by (simp add: cache_def)

subsection \<open>The canonical form of Add\<close>

lemma canonicalAdd_filter:
  "filter (\<lambda>x. numericValue x = None \<or> isZero K x \<noteq> Some True) xs =
   filter (\<lambda>x. \<not> literal_zero K x) xs"
  by (rule filter_cong) (auto simp: literal_zero_def)

lemma canonicalAdd_idem:
  "canonicalAdd K (filter (\<lambda>x. \<not> literal_zero K x) xs) = canonicalAdd K xs"
  by (simp add: canonicalAdd_def canonicalAdd_filter)

lemma canonicalAdd_none:
  "filter (\<lambda>x. \<not> literal_zero K x) xs = [] \<Longrightarrow> canonicalAdd K xs = Zero"
  by (simp add: canonicalAdd_def canonicalAdd_filter)

lemma canonicalAdd_single:
  "filter (\<lambda>x. \<not> literal_zero K x) xs = [x] \<Longrightarrow> \<not> isIndexableCollection K x \<Longrightarrow>
   canonicalAdd K xs = x"
  by (simp add: canonicalAdd_def canonicalAdd_filter)

lemma canonicalAdd_complex_re_im:
  "filter (\<lambda>x. \<not> literal_zero K x) xs = [x, y] \<Longrightarrow>
   asFloat K x = Some a \<Longrightarrow> a \<noteq> Finite 0 \<Longrightarrow>
   getImaginaryCoef K y = Some b \<Longrightarrow> b \<noteq> Finite 0 \<Longrightarrow>
   canonicalAdd K xs = ce_number K (Complex a b)"
  by (simp add: canonicalAdd_def canonicalAdd_filter complex_of_two_def)

lemma canonicalAdd_complex_im_re:
  "filter (\<lambda>x. \<not> literal_zero K x) xs = [y, x] \<Longrightarrow>
   asFloat K y = None \<or> asFloat K y = Some (Finite 0) \<Longrightarrow>
   getImaginaryCoef K y = Some b \<Longrightarrow> b \<noteq> Finite 0 \<Longrightarrow>
   numericValue x \<noteq> None \<Longrightarrow> asFloat K x = Some a \<Longrightarrow>
   canonicalAdd K xs = ce_number K (Complex a b)"
  by (auto simp add: canonicalAdd_def canonicalAdd_filter complex_of_two_def)

lemma canonicalAdd_many:
  "3 \<le> length (filter (\<lambda>x. \<not> literal_zero K x) xs) \<Longrightarrow>
   canonicalAdd K xs = Fn ''Add'' (sortAdd K (filter (\<lambda>x. \<not> literal_zero K x) xs))"
  by (auto simp add: canonicalAdd_def canonicalAdd_filter Let_def)

text \<open>
  Claim C7. \<open>canonicalAdd\<close> removes every operand that is a literal zero: its result is
  that of the operands without them, and the \<open>Add\<close> node it builds for three or more
  remaining operands has exactly those (sorted). When two operands remain, one a real
  literal \<open>a\<close> and the other with imaginary coefficient \<open>b\<close> (not zero) and no real
  value, in either order, the result is the complex literal of \<open>a\<close> and \<open>b\<close>. When one
  operand remains and it is not an indexable collection, the result is that operand.
\<close>

theorem canonicalAdd_zero_complex_single:
  "canonicalAdd K xs = canonicalAdd K (filter (\<lambda>x. \<not> literal_zero K x) xs)
   \<and> (3 \<le> length (filter (\<lambda>x. \<not> literal_zero K x) xs) \<longrightarrow>
        canonicalAdd K xs = Fn ''Add'' (sortAdd K (filter (\<lambda>x. \<not> literal_zero K x) xs)))
   \<and> (filter (\<lambda>x. \<not> literal_zero K x) xs = [x, y]
        \<and> asFloat K x = Some a \<and> a \<noteq> Finite 0
        \<and> getImaginaryCoef K y = Some b \<and> b \<noteq> Finite 0 \<longrightarrow>
        canonicalAdd K xs = ce_number K (Complex a b))
   \<and> (filter (\<lambda>x. \<not> literal_zero K x) xs = [y, x]
        \<and> (asFloat K y = None \<or> asFloat K y = Some (Finite 0))
        \<and> getImaginaryCoef K y = Some b \<and> b \<noteq> Finite 0
        \<and> numericValue x \<noteq> None \<and> asFloat K x = Some a \<longrightarrow>
        canonicalAdd K xs = ce_number K (Complex a b))
   \<and> (filter (\<lambda>x. \<not> literal_zero K x) xs = [x] \<and> \<not> isIndexableCollection K x \<longrightarrow>
        canonicalAdd K xs = x)"
  using canonicalAdd_idem [of K xs] canonicalAdd_many [of K xs]
    canonicalAdd_complex_re_im [of K xs x y a b]
    canonicalAdd_complex_im_re [of K xs y x b a]
    canonicalAdd_single [of K xs x]
  by simp

theorem canonicalAdd_zero_complex_single_witness:
  "canonicalAdd example_kernel [Num 0, Num 3, Fn ''Multiply'' [Num 2, Sym ''ImaginaryUnit'']] =
     BoxedNumber (Complex (Finite 3) (Finite 2))
   \<and> canonicalAdd example_kernel [Fn ''Multiply'' [Num 2, Sym ''ImaginaryUnit''], Num 0, Num 3] =
     BoxedNumber (Complex (Finite 3) (Finite 2))
   \<and> canonicalAdd example_kernel [Num 0, Sym ''x'', Num 0] = Sym ''x''"
proof -
  let ?bi = "Fn ''Multiply'' [Num 2, Sym ''ImaginaryUnit'']"
  have lz: "literal_zero example_kernel (Num 0)" "\<not> literal_zero example_kernel (Num 3)"
    "\<not> literal_zero example_kernel ?bi" "\<not> literal_zero example_kernel (Sym ''x'')"
    by (simp_all add: literal_zero_def example_kernel_def literal_value_def)
  have re: "asFloat example_kernel (Num 3) = Some (Finite 3)"
    "asFloat example_kernel ?bi = None"
    by (simp_all add: example_kernel_def literal_value_def)
  have im: "getImaginaryCoef example_kernel ?bi = Some (Finite 2)"
    by (simp add: example_kernel_def literal_value_def head_is_def)
  have coll: "\<not> isIndexableCollection example_kernel (Sym ''x'')"
    by (simp add: example_kernel_def head_is_def)
  have num: "ce_number example_kernel = BoxedNumber"
    by (simp add: example_kernel_def)
  have "canonicalAdd example_kernel [Num 0, Num 3, ?bi] =
      BoxedNumber (Complex (Finite 3) (Finite 2))"
    using canonicalAdd_zero_complex_single
      [where K = example_kernel and xs = "[Num 0, Num 3, ?bi]"
         and x = "Num 3" and y = ?bi and a = "Finite 3" and b = "Finite 2",
         THEN conjunct2, THEN conjunct2, THEN conjunct1]
    by (simp add: lz re im num)
  moreover have "canonicalAdd example_kernel [?bi, Num 0, Num 3] =
      BoxedNumber (Complex (Finite 3) (Finite 2))"
    using canonicalAdd_zero_complex_single
      [where K = example_kernel and xs = "[?bi, Num 0, Num 3]"
         and x = "Num 3" and y = ?bi and a = "Finite 3" and b = "Finite 2",
         THEN conjunct2, THEN conjunct2, THEN conjunct2, THEN conjunct1]
    by (simp add: lz re im num)
  moreover have "canonicalAdd example_kernel [Num 0, Sym ''x'', Num 0] = Sym ''x''"
    using canonicalAdd_zero_complex_single
      [where K = example_kernel and xs = "[Num 0, Sym ''x'', Num 0]" and x = "Sym ''x''",
         THEN conjunct2, THEN conjunct2, THEN conjunct2, THEN conjunct2]
    by (simp add: lz coll)
  ultimately show ?thesis by simp
qed

subsection \<open>The canonical form of Power\<close>

lemma head_is_not_numeric:
  "head_is b h \<Longrightarrow> h \<noteq> ''Number'' \<Longrightarrow> numericValue b = None"
  by (cases b) (auto simp: head_is_def)

lemma canonicalPower_exponent_zero:
  "symbol e \<noteq> Some ''ComplexInfinity'' \<Longrightarrow> isZero K e = Some True \<Longrightarrow>
   canonicalPower K b e = One"
  by (simp add: canonicalPower.simps)

lemma canonicalPower_exponent_one:
  "symbol e \<noteq> Some ''ComplexInfinity'' \<Longrightarrow> isZero K e \<noteq> Some True \<Longrightarrow>
   isOne K e = Some True \<Longrightarrow> canonicalPower K b e = b"
  by (simp add: canonicalPower.simps)

lemma canonicalPower_base_one:
  "no_exponent_shortcut K e \<Longrightarrow> numericValue e \<noteq> None \<Longrightarrow> numericValue b \<noteq> None \<Longrightarrow>
   asFloat K b = Some (Finite 1) \<Longrightarrow> canonicalPower K b e = One"
  by (simp add: canonicalPower.simps no_exponent_shortcut_def canonicalPower_numeric_def)

lemma canonicalPower_base_zero_positive:
  "no_exponent_shortcut K e \<Longrightarrow> numericValue e \<noteq> None \<Longrightarrow> numericValue b \<noteq> None \<Longrightarrow>
   asFloat K b = Some (Finite 0) \<Longrightarrow> isPositive K e = Some True \<Longrightarrow>
   canonicalPower K b e = Zero"
  by (simp add: canonicalPower.simps no_exponent_shortcut_def canonicalPower_numeric_def)

lemma canonicalPower_base_zero_negative:
  "no_exponent_shortcut K e \<Longrightarrow> numericValue e \<noteq> None \<Longrightarrow> numericValue b \<noteq> None \<Longrightarrow>
   asFloat K b = Some (Finite 0) \<Longrightarrow> isPositive K e \<noteq> Some True \<Longrightarrow>
   isNegative K e = Some True \<Longrightarrow> canonicalPower K b e = ComplexInfinity"
  by (simp add: canonicalPower.simps no_exponent_shortcut_def canonicalPower_numeric_def)

lemma canonicalPower_half:
  "no_exponent_shortcut K e \<Longrightarrow> numericValue e \<noteq> None \<Longrightarrow> numericValue b \<noteq> None \<Longrightarrow>
   asFloat K b \<noteq> Some (Finite 1) \<Longrightarrow> asFloat K b \<noteq> Some (Finite 0) \<Longrightarrow>
   asFloat K e = Some (Finite (1 / 2)) \<Longrightarrow>
   asSmallInteger K b = Some n \<Longrightarrow> 0 < n \<Longrightarrow> factorPower K n 2 = (1, r) \<Longrightarrow> r \<noteq> 1 \<Longrightarrow>
   canonicalPower K b e = Fn ''Sqrt'' [b]"
  by (simp add: canonicalPower.simps no_exponent_shortcut_def canonicalPower_numeric_def
      canonicalPower_sqrt_def)

lemma canonicalPower_power_rule:
  assumes "no_exponent_shortcut K e" and "head_is b ''Power''"
    and "isReal K (op1 b) = Some True"
    and "asSmallInteger K e = Some a" and "asSmallInteger K (op2 b) = Some n"
  shows "canonicalPower K b e =
     pow K (op1 b) (EExpr (ce_number K (Machine (Finite (of_int (a * n))))))"
proof -
  have "numericValue b = None"
    using assms(2) by (rule head_is_not_numeric) simp
  then have "canonicalPower_numeric K b e = None"
    by (simp add: canonicalPower_numeric_def)
  moreover have "power_rule K b e =
      Some (op1 b, ce_number K (Machine (Finite (of_int (a * n)))))"
    using assms by (simp add: power_rule_def)
  ultimately show ?thesis
    using assms(1) by (simp add: canonicalPower.simps no_exponent_shortcut_def)
qed

lemma canonicalPower_distributes:
  assumes "no_exponent_shortcut K e" and "head_is b ''Multiply''"
    and "asSmallInteger K e = Some a" and "ops b = Some xs"
  shows "canonicalPower K b e = Fn ''Multiply'' (map (\<lambda>x. pow K x (EExpr e)) xs)"
proof -
  have "numericValue b = None"
    using assms(2) by (rule head_is_not_numeric) simp
  then have "canonicalPower_numeric K b e = None"
    by (simp add: canonicalPower_numeric_def)
  moreover have "power_rule K b e = None"
    using assms(2) by (simp add: power_rule_def head_is_def)
  ultimately show ?thesis
    using assms by (simp add: canonicalPower.simps no_exponent_shortcut_def)
qed

lemma canonicalPower_symbolic_exponent:
  "no_exponent_shortcut K e \<Longrightarrow> numericValue e = None \<Longrightarrow>
   canonicalPower K (BoxedNumber v) e = Fn ''Power'' [BoxedNumber v, e]"
  by (simp add: canonicalPower.simps no_exponent_shortcut_def canonicalPower_numeric_def
      power_rule_def head_is_def)

lemma pow_symbolic_exponent:
  "no_exponent_shortcut K e \<Longrightarrow> numericValue e = None \<Longrightarrow>
   pow K (BoxedNumber v) (EExpr e) = Fn ''Power'' [BoxedNumber v, e]"
  by (simp add: pow.simps pow_shortcut_def pow_exponent_def canonicalPower_symbolic_exponent)

text \<open>
  Claim C3, as the code has it. \<open>canonicalPower\<close> returns 1 for an exponent that is
  zero and the base for an exponent that is one. The rules on the base are applied for
  a numeric literal base and a numeric literal exponent only (outside the exponents 0,
  1 and -1): 1 for the base 1, 0 for the base 0 and a positive exponent, complex
  infinity for the base 0 and a negative exponent, and \<open>Sqrt(b)\<close> for the exponent 1/2
  and a small positive integer base without a square factor. A power of a real \<open>x\<close>
  with small integer exponents becomes \<open>ce.pow\<close> of \<open>x\<close> and the product of the
  exponents, and a small integer exponent is distributed over a \<open>Multiply\<close>. For an
  exponent that is not a numeric literal the canonical form of a power of a numeric
  literal, the base 1 included, is the \<open>Power\<close> node itself.
\<close>

theorem canonicalPower_rules:
  "(symbol e \<noteq> Some ''ComplexInfinity'' \<and> isZero K e = Some True \<longrightarrow>
      canonicalPower K b e = One)
   \<and> (symbol e \<noteq> Some ''ComplexInfinity'' \<and> isZero K e \<noteq> Some True
        \<and> isOne K e = Some True \<longrightarrow> canonicalPower K b e = b)
   \<and> (no_exponent_shortcut K e \<and> numericValue e \<noteq> None \<and> numericValue b \<noteq> None
        \<and> asFloat K b = Some (Finite 1) \<longrightarrow> canonicalPower K b e = One)
   \<and> (no_exponent_shortcut K e \<and> numericValue e \<noteq> None \<and> numericValue b \<noteq> None
        \<and> asFloat K b = Some (Finite 0) \<and> isPositive K e = Some True \<longrightarrow>
        canonicalPower K b e = Zero)
   \<and> (no_exponent_shortcut K e \<and> numericValue e \<noteq> None \<and> numericValue b \<noteq> None
        \<and> asFloat K b = Some (Finite 0) \<and> isPositive K e \<noteq> Some True
        \<and> isNegative K e = Some True \<longrightarrow> canonicalPower K b e = ComplexInfinity)
   \<and> (no_exponent_shortcut K e \<and> numericValue e \<noteq> None \<and> numericValue b \<noteq> None
        \<and> asFloat K b \<noteq> Some (Finite 1) \<and> asFloat K b \<noteq> Some (Finite 0)
        \<and> asFloat K e = Some (Finite (1 / 2))
        \<and> asSmallInteger K b = Some n \<and> 0 < n \<and> factorPower K n 2 = (1, r) \<and> r \<noteq> 1 \<longrightarrow>
        canonicalPower K b e = Fn ''Sqrt'' [b])
   \<and> (no_exponent_shortcut K e \<and> head_is b ''Power'' \<and> isReal K (op1 b) = Some True
        \<and> asSmallInteger K e = Some a \<and> asSmallInteger K (op2 b) = Some m \<longrightarrow>
        canonicalPower K b e =
          pow K (op1 b) (EExpr (ce_number K (Machine (Finite (of_int (a * m)))))))
   \<and> (no_exponent_shortcut K e \<and> head_is b ''Multiply'' \<and> asSmallInteger K e = Some a
        \<and> ops b = Some xs \<longrightarrow>
        canonicalPower K b e = Fn ''Multiply'' (map (\<lambda>x. pow K x (EExpr e)) xs))
   \<and> (no_exponent_shortcut K e \<and> numericValue e = None \<longrightarrow>
        canonicalPower K (BoxedNumber v) e = Fn ''Power'' [BoxedNumber v, e]
        \<and> pow K (BoxedNumber v) (EExpr e) = Fn ''Power'' [BoxedNumber v, e])"
proof -
  have c1: "symbol e \<noteq> Some ''ComplexInfinity'' \<and> isZero K e = Some True \<longrightarrow>
      canonicalPower K b e = One"
    by (intro impI; elim conjE) (simp add: canonicalPower_exponent_zero)
  have c2: "symbol e \<noteq> Some ''ComplexInfinity'' \<and> isZero K e \<noteq> Some True
        \<and> isOne K e = Some True \<longrightarrow> canonicalPower K b e = b"
    by (intro impI; elim conjE) (simp add: canonicalPower_exponent_one)
  have c3: "no_exponent_shortcut K e \<and> numericValue e \<noteq> None \<and> numericValue b \<noteq> None
        \<and> asFloat K b = Some (Finite 1) \<longrightarrow> canonicalPower K b e = One"
    by (intro impI; elim conjE) (simp add: canonicalPower_base_one)
  have c4: "no_exponent_shortcut K e \<and> numericValue e \<noteq> None \<and> numericValue b \<noteq> None
        \<and> asFloat K b = Some (Finite 0) \<and> isPositive K e = Some True \<longrightarrow>
        canonicalPower K b e = Zero"
    by (intro impI; elim conjE) (simp add: canonicalPower_base_zero_positive)
  have c5: "no_exponent_shortcut K e \<and> numericValue e \<noteq> None \<and> numericValue b \<noteq> None
        \<and> asFloat K b = Some (Finite 0) \<and> isPositive K e \<noteq> Some True
        \<and> isNegative K e = Some True \<longrightarrow> canonicalPower K b e = ComplexInfinity"
    by (intro impI; elim conjE) (simp add: canonicalPower_base_zero_negative)
  have c6: "no_exponent_shortcut K e \<and> numericValue e \<noteq> None \<and> numericValue b \<noteq> None
        \<and> asFloat K b \<noteq> Some (Finite 1) \<and> asFloat K b \<noteq> Some (Finite 0)
        \<and> asFloat K e = Some (Finite (1 / 2))
        \<and> asSmallInteger K b = Some n \<and> 0 < n \<and> factorPower K n 2 = (1, r) \<and> r \<noteq> 1 \<longrightarrow>
        canonicalPower K b e = Fn ''Sqrt'' [b]"
    by (intro impI; elim conjE) (rule canonicalPower_half)
  have c7: "no_exponent_shortcut K e \<and> head_is b ''Power'' \<and> isReal K (op1 b) = Some True
        \<and> asSmallInteger K e = Some a \<and> asSmallInteger K (op2 b) = Some m \<longrightarrow>
        canonicalPower K b e =
          pow K (op1 b) (EExpr (ce_number K (Machine (Finite (of_int (a * m))))))"
    by (intro impI; elim conjE) (rule canonicalPower_power_rule)
  have c8: "no_exponent_shortcut K e \<and> head_is b ''Multiply'' \<and> asSmallInteger K e = Some a
        \<and> ops b = Some xs \<longrightarrow>
        canonicalPower K b e = Fn ''Multiply'' (map (\<lambda>x. pow K x (EExpr e)) xs)"
    by (intro impI; elim conjE) (rule canonicalPower_distributes)
  have c9: "no_exponent_shortcut K e \<and> numericValue e = None \<longrightarrow>
        canonicalPower K (BoxedNumber v) e = Fn ''Power'' [BoxedNumber v, e]
        \<and> pow K (BoxedNumber v) (EExpr e) = Fn ''Power'' [BoxedNumber v, e]"
    by (intro impI; elim conjE) (simp add: canonicalPower_symbolic_exponent pow_symbolic_exponent)
  show ?thesis
    by (intro conjI c1 c2 c3 c4 c5 c6 c7 c8 c9)
qed

theorem canonicalPower_rules_witness:
  "canonicalPower example_kernel (Num 7) (Num 0) = One
   \<and> canonicalPower example_kernel (Num 1) (Num 5) = One
   \<and> canonicalPower example_kernel (Num 0) (Num (- 3)) = ComplexInfinity
   \<and> canonicalPower example_kernel (Num 3) Half = Fn ''Sqrt'' [Num 3]
   \<and> pow example_kernel (Num 1) (EExpr (Sym ''y'')) = Fn ''Power'' [Num 1, Sym ''y'']"
proof -
  have ks: "isZero example_kernel (Num 0) = Some True"
    "no_exponent_shortcut example_kernel (Num 5)"
    "no_exponent_shortcut example_kernel (Num (- 3))"
    "no_exponent_shortcut example_kernel Half"
    "no_exponent_shortcut example_kernel (Sym ''y'')"
    "asFloat example_kernel (Num 1) = Some (Finite 1)"
    "asFloat example_kernel (Num 0) = Some (Finite 0)"
    "asFloat example_kernel (Num 3) = Some (Finite 3)"
    "asFloat example_kernel Half = Some (Finite (1 / 2))"
    "isPositive example_kernel (Num (- 3)) = Some False"
    "isNegative example_kernel (Num (- 3)) = Some True"
    "asSmallInteger example_kernel (Num 3) = Some 3"
    "factorPower example_kernel 3 2 = (1, 3)"
    by (simp_all add: example_kernel_def literal_value_def no_exponent_shortcut_def Half_def)
  have "canonicalPower example_kernel (Num 7) (Num 0) = One"
    using canonicalPower_rules [where K = example_kernel and b = "Num 7" and e = "Num 0",
        THEN conjunct1]
    by (simp add: ks)
  moreover have "canonicalPower example_kernel (Num 1) (Num 5) = One"
    using canonicalPower_rules [where K = example_kernel and b = "Num 1" and e = "Num 5",
        THEN conjunct2, THEN conjunct2, THEN conjunct1]
    by (simp add: ks)
  moreover have "canonicalPower example_kernel (Num 0) (Num (- 3)) = ComplexInfinity"
    using canonicalPower_rules [where K = example_kernel and b = "Num 0" and e = "Num (- 3)",
        THEN conjunct2, THEN conjunct2, THEN conjunct2, THEN conjunct2, THEN conjunct1]
    by (simp add: ks)
  moreover have "canonicalPower example_kernel (Num 3) Half = Fn ''Sqrt'' [Num 3]"
    using canonicalPower_rules [where K = example_kernel and b = "Num 3" and e = Half
        and n = 3 and r = 3,
        THEN conjunct2, THEN conjunct2, THEN conjunct2, THEN conjunct2, THEN conjunct2,
        THEN conjunct1]
    by (simp add: ks) (simp add: Half_def)
  moreover have "pow example_kernel (Num 1) (EExpr (Sym ''y'')) = Fn ''Power'' [Num 1, Sym ''y'']"
    using canonicalPower_rules [where K = example_kernel and e = "Sym ''y''"
        and v = "Machine (Finite 1)",
        THEN conjunct2, THEN conjunct2, THEN conjunct2, THEN conjunct2, THEN conjunct2,
        THEN conjunct2, THEN conjunct2, THEN conjunct2]
    by (simp add: ks)
  ultimately show ?thesis by simp
qed

text \<open>
  The claim as stated fails for an exponent that is not a numeric literal: the
  canonical form of \<open>Power(1, Sin(x))\<close> is that same power, not the number 1.
\<close>

theorem power_of_one_symbolic_exponent_counterexample:
  "pow example_kernel One (EExpr (Fn ''Sin'' [Sym ''x''])) =
     Fn ''Power'' [One, Fn ''Sin'' [Sym ''x'']]
   \<and> canonicalPower example_kernel One (Fn ''Sin'' [Sym ''x'']) =
     Fn ''Power'' [One, Fn ''Sin'' [Sym ''x'']]
   \<and> pow example_kernel One (EExpr (Fn ''Sin'' [Sym ''x''])) \<noteq> One"
proof -
  have "no_exponent_shortcut example_kernel (Fn ''Sin'' [Sym ''x''])"
    by (simp add: example_kernel_def literal_value_def no_exponent_shortcut_def)
  then show ?thesis
    by (simp add: One_def pow_symbolic_exponent canonicalPower_symbolic_exponent)
qed

subsection \<open>A quadratic equation\<close>








end
